theory Spec2Isabelle
  imports Complex_Main
begin

section \<open>JavaScript values\<close>

text \<open>
  The models are Mongoose schemas written in TypeScript. A \<^verbatim>\<open>Date\<close> is its
  \<^verbatim>\<open>getTime()\<close>, the milliseconds since the epoch; comparing two dates compares these.
  An \<^verbatim>\<open>ObjectId\<close> is its hexadecimal string. Every reading of the clock
  (\<^verbatim>\<open>new Date()\<close>, \<^verbatim>\<open>Date.now()\<close>) is an argument of the function that reads it.

  A JavaScript \<^verbatim>\<open>Number\<close> is an IEEE 754 double. In the pricing of an order a rounded sum
  decides a branch, so the order's numbers are doubles (\<open>js_number\<close> below) and its
  arithmetic rounds. The stock, the price and the ratings of a product are read as real
  numbers with exact arithmetic; rounding error, \<^verbatim>\<open>NaN\<close> and the infinities are outside
  that part of the model.
\<close>

type_synonym ObjectId = string
type_synonym Date = int

datatype error = InsufficientStock | ValidationError

subsection \<open>Doubles\<close>

text \<open>
  A double is a finite value, an infinity or \<^verbatim>\<open>NaN\<close>. The two zeros are one value: no
  operation of the order tells them apart. \<open>round_double\<close> is rounding to the nearest double,
  ties to the even significand: the significand has 53 bits, the exponent of a normal
  number is at least -1022 and below it the spacing stays at \<open>2 ^ (-1074)\<close>, and a result
  that rounds to \<open>2 ^ 1024\<close> or more is an infinity.
\<close>

datatype js_number = Num real | PosInf | NegInf | NaN

fun bit_length :: "nat \<Rightarrow> nat" where
  "bit_length n = (if n = 0 then 0 else Suc (bit_length (n div 2)))"

declare bit_length.simps [simp del]

definition pow2 :: "int \<Rightarrow> real" where
  "pow2 e = (if 0 \<le> e then 2 ^ nat e else 1 / 2 ^ nat (- e))"

text \<open>The exponent \<open>e\<close> of a positive real: \<open>pow2 e \<le> a < pow2 (e + 1)\<close>.\<close>

definition binade :: "real \<Rightarrow> int" where
  "binade a =
     (if 1 \<le> a then int (bit_length (nat \<lfloor>a\<rfloor>)) - 1
      else (let j = int (bit_length (nat \<lfloor>1 / a\<rfloor>)) - 1
            in if a * pow2 j = 1 then - j else - j - 1))"

definition round_half_even :: "real \<Rightarrow> int" where
  "round_half_even x =
     (let f = \<lfloor>x\<rfloor>; r = x - of_int f
      in if r < 1 / 2 then f else if 1 / 2 < r then f + 1 else if even f then f else f + 1)"

definition round_double :: "real \<Rightarrow> js_number" where
  "round_double x =
     (if x = 0 then Num 0
      else
        (let a = \<bar>x\<bar>;
             e = max (binade a) (- 1022);
             ulp = pow2 (e - 52);
             r = of_int (round_half_even (a / ulp)) * ulp
         in if pow2 1024 \<le> r then (if 0 < x then PosInf else NegInf)
            else Num (if 0 < x then r else - r)))"

text \<open>
  \<^verbatim>\<open>a + b\<close>, \<^verbatim>\<open>a * b\<close> and \<^verbatim>\<open>a - b\<close>: the exact result of finite operands, rounded; the
  infinities and \<^verbatim>\<open>NaN\<close> as IEEE 754 has them.
\<close>

fun js_add :: "js_number \<Rightarrow> js_number \<Rightarrow> js_number" where
  "js_add (Num a) (Num b) = round_double (a + b)"
| "js_add NaN y = NaN"
| "js_add x NaN = NaN"
| "js_add PosInf NegInf = NaN"
| "js_add NegInf PosInf = NaN"
| "js_add PosInf y = PosInf"
| "js_add NegInf y = NegInf"
| "js_add (Num a) y = y"

fun js_neg :: "js_number \<Rightarrow> js_number" where
  "js_neg (Num a) = Num (- a)"
| "js_neg PosInf = NegInf"
| "js_neg NegInf = PosInf"
| "js_neg NaN = NaN"

definition js_sub :: "js_number \<Rightarrow> js_number \<Rightarrow> js_number" where
  "js_sub x y = js_add x (js_neg y)"

fun js_sign :: "js_number \<Rightarrow> int" where
  "js_sign (Num a) = (if 0 < a then 1 else if a < 0 then - 1 else 0)"
| "js_sign PosInf = 1"
| "js_sign NegInf = - 1"
| "js_sign NaN = 0"

fun js_mul :: "js_number \<Rightarrow> js_number \<Rightarrow> js_number" where
  "js_mul (Num a) (Num b) = round_double (a * b)"
| "js_mul NaN y = NaN"
| "js_mul x NaN = NaN"
| "js_mul x y =
     (if js_sign x * js_sign y = 0 then NaN
      else if 0 < js_sign x * js_sign y then PosInf else NegInf)"

text \<open>\<^verbatim>\<open>a > b\<close> and \<^verbatim>\<open>a >= b\<close>: false when either side is \<^verbatim>\<open>NaN\<close>.\<close>

fun js_gt :: "js_number \<Rightarrow> js_number \<Rightarrow> bool" where
  "js_gt (Num a) (Num b) = (b < a)"
| "js_gt NaN y = False"
| "js_gt x NaN = False"
| "js_gt PosInf y = (y \<noteq> PosInf)"
| "js_gt x NegInf = (x \<noteq> NegInf)"
| "js_gt x y = False"

definition js_ge :: "js_number \<Rightarrow> js_number \<Rightarrow> bool" where
  "js_ge x y = (x \<noteq> NaN \<and> y \<noteq> NaN \<and> (x = y \<or> js_gt x y))"

text \<open>\<^verbatim>\<open>a || b\<close> on numbers: zero and \<^verbatim>\<open>NaN\<close> are the falsy numbers.\<close>

fun js_truthy :: "js_number \<Rightarrow> bool" where
  "js_truthy (Num a) = (a \<noteq> 0)"
| "js_truthy NaN = False"
| "js_truthy x = True"

definition js_or :: "js_number \<Rightarrow> js_number \<Rightarrow> js_number" where
  "js_or a b = (if js_truthy a then a else b)"

subsection \<open>Strings and property lookup\<close>



text \<open>\<^verbatim>\<open>!s\<close> on an optional string: true for \<^verbatim>\<open>undefined\<close> and for the empty string.\<close>

definition falsy_string :: "string option \<Rightarrow> bool" where
  "falsy_string s = (case s of None \<Rightarrow> True | Some v \<Rightarrow> v = [])"


section \<open>Order (models/Order.ts)\<close>

text \<open>
  The fields of the schema that the methods and the hooks read or write, and the user.
  The addresses, the payment fields, notes and tracking fields are carried by no method;
  they are left out and taken to hold values the schema accepts.
\<close>

record OrderItem =
  product :: ObjectId
  quantity :: js_number
  price :: js_number

record OrderPricing =
  subtotal :: js_number
  tax :: js_number
  shipping :: js_number
  discount :: js_number
  total' :: js_number

record OrderTimeline =
  status :: string
  message :: "string option"
  timestamp :: Date

record OrderDocument =
  isNew :: bool
  orderNumber :: "string option"
  user :: ObjectId
  items :: "OrderItem list"
  orderStatus :: string
  timeline :: "OrderTimeline list"
  pricing :: "OrderPricing option"
  actualDelivery :: "Date option"

subsection \<open>Validation\<close>

text \<open>
  The validators of the schema (lines 29 to 147) on these fields. \<^verbatim>\<open>required\<close> on a
  string refuses \<^verbatim>\<open>undefined\<close> and the empty string; \<^verbatim>\<open>min\<close> is \<^verbatim>\<open>>=\<close>; a path that
  holds \<^verbatim>\<open>NaN\<close> has failed its cast to a number and is refused.
\<close>

definition order_statuses :: "string list" where
  "order_statuses =
     [''pending'', ''confirmed'', ''processing'', ''shipped'', ''delivered'', ''cancelled'',
      ''refunded'']"

definition OrderItem_valid :: "OrderItem \<Rightarrow> bool" where
  "OrderItem_valid item = (js_ge (quantity item) (Num 1) \<and> js_ge (price item) (Num 0))"

definition OrderPricing_valid :: "OrderPricing \<Rightarrow> bool" where
  "OrderPricing_valid p =
     (js_ge (subtotal p) (Num 0) \<and> js_ge (tax p) (Num 0) \<and> js_ge (shipping p) (Num 0) \<and>
      js_ge (discount p) (Num 0) \<and> js_ge (total' p) (Num 0))"

definition OrderTimeline_valid :: "OrderTimeline \<Rightarrow> bool" where
  "OrderTimeline_valid entry =
     (status entry \<in> set order_statuses \<and> \<not> falsy_string (message entry))"

definition Order_valid :: "OrderDocument \<Rightarrow> bool" where
  "Order_valid doc =
     (\<not> falsy_string (orderNumber doc) \<and>
      list_all OrderItem_valid (items doc) \<and>
      orderStatus doc \<in> set order_statuses \<and>
      list_all OrderTimeline_valid (timeline doc) \<and>
      (case pricing doc of None \<Rightarrow> False | Some p \<Rightarrow> OrderPricing_valid p))"

subsection \<open>Saving\<close>

text \<open>
  The two \<^verbatim>\<open>pre('save')\<close> hooks (lines 158 to 175), in the order the schema registers
  them. The result of \<^verbatim>\<open>generateOrderNumber()\<close> (clock digits and random characters) is
  the argument \<open>generated\<close>.
\<close>

definition pre_save_orderNumber :: "string \<Rightarrow> OrderDocument \<Rightarrow> OrderDocument" where
  "pre_save_orderNumber generated doc =
     (if isNew doc \<and> falsy_string (orderNumber doc)
      then doc\<lparr>orderNumber := Some generated\<rparr> else doc)"

definition pre_save_timeline :: "Date \<Rightarrow> OrderDocument \<Rightarrow> OrderDocument" where
  "pre_save_timeline now doc =
     (if isNew doc
      then doc\<lparr>timeline := timeline doc @
             [\<lparr>status = ''pending'', message = Some ''Order has been placed'',
               timestamp = now\<rparr>]\<rparr>
      else doc)"

text \<open>
  \<^verbatim>\<open>save()\<close>: the outcome (\<open>Some\<close> error when the promise rejects) and the document as
  the call leaves it. Mongoose validates first, in a hook of its own that runs before the
  hooks of the schema: a document that fails validation is rejected as it is, and neither
  hook runs. Otherwise the two hooks run and the document is written, and is then no
  longer new. The write itself is taken to succeed (no other order has the number).
\<close>

definition Order_save :: "string \<Rightarrow> Date \<Rightarrow> OrderDocument \<Rightarrow> error option \<times> OrderDocument" where
  "Order_save generated now doc =
     (if Order_valid doc
      then (None, (pre_save_timeline now (pre_save_orderNumber generated doc))\<lparr>isNew := False\<rparr>)
      else (Some ValidationError, doc))"

subsection \<open>Methods\<close>




text \<open>
  \<^verbatim>\<open>calculateTotals()\<close> (lines 219 to 232), in double arithmetic: \<^verbatim>\<open>reduce\<close> is a left
  fold from \<open>0\<close>, the literal \<^verbatim>\<open>0.16\<close> is the double nearest to it,
  \<^verbatim>\<open>this.pricing?.discount || 0\<close> is \<open>pricing_discount\<close>, and
  \<^verbatim>\<open>subtotal + tax + shipping - d\<close> associates to the left.
\<close>

definition pricing_discount :: "OrderDocument \<Rightarrow> js_number" where
  "pricing_discount doc =
     (case pricing doc of None \<Rightarrow> Num 0 | Some p \<Rightarrow> js_or (discount p) (Num 0))"

definition calculateTotals :: "OrderDocument \<Rightarrow> OrderPricing" where
  "calculateTotals doc =
     (let subtotal_v =
            foldl (\<lambda>sum item. js_add sum (js_mul (price item) (quantity item))) (Num 0) (items doc);
          tax_v = js_mul subtotal_v (round_double 0.16);
          shipping_v = (if js_gt subtotal_v (Num 5000) then Num 0 else Num 200);
          total_v = js_sub (js_add (js_add subtotal_v tax_v) shipping_v) (pricing_discount doc)
      in \<lparr>subtotal = subtotal_v, tax = tax_v, shipping = shipping_v,
          discount = pricing_discount doc, total' = total_v\<rparr>)"

definition canBeCancelled :: "OrderDocument \<Rightarrow> bool" where
  "canBeCancelled doc = (orderStatus doc \<in> set [''pending'', ''confirmed'', ''processing''])"

text \<open>
  \<^verbatim>\<open>canBeCancelled()\<close> above is lines 235 to 238. \<^verbatim>\<open>canBeReturned()\<close> (lines 241 to 248)
  has \<^verbatim>\<open>Date.now()\<close> as the argument \<open>now\<close>.
\<close>

definition canBeReturned :: "OrderDocument \<Rightarrow> Date \<Rightarrow> bool" where
  "canBeReturned doc now =
     (if orderStatus doc \<noteq> ''delivered'' \<or> actualDelivery doc = None then False
      else
        (case actualDelivery doc of
           None \<Rightarrow> False
         | Some delivered_at \<Rightarrow>
             (let returnWindow = 7 * 24 * 60 * 60 * 1000;
                  timeSinceDelivery = now - delivered_at
              in timeSinceDelivery \<le> returnWindow)))"

subsection \<open>Sequences of transitions, and example orders\<close>



text \<open>
  The exact value of a finite double, and the doubles that are natural numbers.
\<close>

fun the_real :: "js_number \<Rightarrow> real" where
  "the_real (Num a) = a"
| "the_real x = 0"

definition exact_subtotal :: "OrderItem list \<Rightarrow> real" where
  "exact_subtotal its = (\<Sum>item\<leftarrow>its. the_real (price item) * the_real (quantity item))"

definition is_natural :: "js_number \<Rightarrow> bool" where
  "is_natural x = (case x of Num a \<Rightarrow> 0 \<le> a \<and> a = of_int \<lfloor>a\<rfloor> | _ \<Rightarrow> False)"

text \<open>
  A new order as the constructor leaves it when it is given an order number and no
  timeline: two units at 1500.
\<close>

definition new_order :: OrderDocument where
  "new_order =
     \<lparr>isNew = True, orderNumber = Some ''ORD-00000001-ABC123'', user = ''64b000000000000000000001'',
      items = [\<lparr>product = ''64b0000000000000000000a1'', quantity = Num 2, price = Num 1500\<rparr>],
      orderStatus = ''pending'', timeline = [],
      pricing = Some \<lparr>subtotal = Num 3000, tax = Num 480, shipping = Num 200, discount = Num 0,
                      total' = Num 3680\<rparr>,
      actualDelivery = None\<rparr>"

definition saved_order :: OrderDocument where
  "saved_order = snd (Order_save ''ORD-00000002-XYZ789'' 1000 new_order)"

text \<open>
  The same order constructed with a timeline of its own, as an import of an order that was
  shipped elsewhere would construct it.
\<close>

definition imported_order :: OrderDocument where
  "imported_order =
     new_order\<lparr>timeline := [\<lparr>status = ''shipped'', message = Some ''Imported'', timestamp = 10\<rparr>]\<rparr>"

text \<open>
  Two orders with prices that are not integers: 13 units at 2.6 and 3 units at 1655.4;
  one unit at 0.08 and one at 4999.92. Each price is the double nearest to the decimal.
\<close>

definition order_of_items :: "(real \<times> real) list \<Rightarrow> OrderDocument" where
  "order_of_items its =
     new_order\<lparr>items := map (\<lambda>(p, q). \<lparr>product = ''64b0000000000000000000a1'',
                                        quantity = round_double q, price = round_double p\<rparr>) its\<rparr>"


section \<open>Slugs (the \<^verbatim>\<open>pre('save')\<close> hooks of Product.ts and Category.ts)\<close>

text \<open>
  Both hooks compute
  \<^verbatim>\<open>name.toLowerCase().replace(/[^a-z0-9]+/g, '-').replace(/(^-|-$)/g, '')\<close>.
  A name is a list of 8-bit characters. \<open>toLowerCase\<close> maps the letters A to Z and leaves
  every other character as it is, which is what JavaScript does on ASCII; beyond ASCII the
  two regular expressions see a character outside \<open>[a-z0-9]\<close> before and after
  lowercasing, except for the two code points whose lowercase form holds an ASCII letter
  (the Kelvin sign and the dotted capital I), which are outside the model.
\<close>

definition lower_alnum :: "char \<Rightarrow> bool" where
  "lower_alnum c =
     (let n = (of_char c :: nat) in (97 \<le> n \<and> n \<le> 122) \<or> (48 \<le> n \<and> n \<le> 57))"

definition toLowerCase :: "string \<Rightarrow> string" where
  "toLowerCase s =
     map (\<lambda>c. let n = (of_char c :: nat) in if 65 \<le> n \<and> n \<le> 90 then char_of (n + 32) else c) s"

text \<open>
  \<^verbatim>\<open>.replace(/[^a-z0-9]+/g, '-')\<close>: the scan goes left to right; at a character outside
  the class the greedy \<^verbatim>\<open>+\<close> takes every following character outside the class, the
  match is replaced by one hyphen, and the scan goes on after the match.
\<close>

function replace_runs :: "string \<Rightarrow> string" where
  "replace_runs [] = []"
| "replace_runs (c # cs) =
     (if lower_alnum c then c # replace_runs cs
      else CHR ''-'' # replace_runs (dropWhile (\<lambda>d. \<not> lower_alnum d) cs))"
  by pat_completeness auto
termination
  by (relation "measure length") (auto simp: less_Suc_eq_le length_dropWhile_le)

text \<open>
  \<^verbatim>\<open>.replace(/(^-|-$)/g, '')\<close>: without the multiline flag \<^verbatim>\<open>^\<close> is the start of the
  string and \<^verbatim>\<open>$\<close> its end, so the matches are a hyphen at the first position and a
  hyphen at the last position (of what follows the first match).
\<close>

definition strip_edge_hyphens :: "string \<Rightarrow> string" where
  "strip_edge_hyphens s =
     (let s1 = (case s of [] \<Rightarrow> [] | c # cs \<Rightarrow> if c = CHR ''-'' then cs else s)
      in if s1 \<noteq> [] \<and> last s1 = CHR ''-'' then butlast s1 else s1)"

definition slug_of_name :: "string \<Rightarrow> string" where
  "slug_of_name nm = strip_edge_hyphens (replace_runs (toLowerCase nm))"

text \<open>
  The slug in the words of the specification, to compare with: the lowercased name is cut
  into its maximal runs of characters that are all inside or all outside \<open>[a-z0-9]\<close>, each
  run outside the class becomes one hyphen, and every hyphen at the start and at the end
  of the result is dropped.
\<close>

function maximal_runs :: "string \<Rightarrow> string list" where
  "maximal_runs [] = []"
| "maximal_runs (c # cs) =
     (c # takeWhile (\<lambda>d. lower_alnum d = lower_alnum c) cs)
       # maximal_runs (dropWhile (\<lambda>d. lower_alnum d = lower_alnum c) cs)"
  by pat_completeness auto
termination
  by (relation "measure length") (auto simp: less_Suc_eq_le length_dropWhile_le)

definition run_image :: "string \<Rightarrow> string" where
  "run_image r = (case r of [] \<Rightarrow> [] | c # cs \<Rightarrow> if lower_alnum c then r else ''-'')"

definition strip_all_hyphens :: "string \<Rightarrow> string" where
  "strip_all_hyphens s =
     rev (dropWhile (\<lambda>c. c = CHR ''-'') (rev (dropWhile (\<lambda>c. c = CHR ''-'') s)))"

definition slug_spec :: "string \<Rightarrow> string" where
  "slug_spec nm = strip_all_hyphens (concat (map run_image (maximal_runs (toLowerCase nm))))"

section \<open>Category (models/Category.ts)\<close>

record CategoryDocument =
  isModified_name :: bool
  name :: string
  slug :: "string option"

definition Category_pre_save :: "CategoryDocument \<Rightarrow> CategoryDocument" where
  "Category_pre_save doc =
     (if CategoryDocument.isModified_name doc \<and> falsy_string (CategoryDocument.slug doc)
      then doc\<lparr>CategoryDocument.slug := Some (slug_of_name (CategoryDocument.name doc))\<rparr>
      else doc)"

section \<open>Product (models/Product.ts)\<close>

record Discount =
  discount_type :: "string option"
  discount_value :: real
  startDate :: "Date option"
  endDate :: "Date option"

record SeoData =
  metaTitle :: "string option"
  metaDescription :: "string option"
  slug :: "string option"

record Ratings =
  average :: real
  count :: real

record ProductDocument =
  product_id :: ObjectId
  isModified_name :: bool
  name :: string
  price :: real
  stock :: real
  ratings :: Ratings
  discount :: "Discount option"
  seoData :: "SeoData option"

definition Product_pre_save :: "ProductDocument \<Rightarrow> ProductDocument" where
  "Product_pre_save doc =
     (if ProductDocument.isModified_name doc
         \<and> falsy_string (case seoData doc of None \<Rightarrow> None | Some sd \<Rightarrow> SeoData.slug sd)
      then
        (let sd = (case seoData doc of
                     None \<Rightarrow> \<lparr>metaTitle = None, metaDescription = None, slug = None\<rparr>
                   | Some sd \<Rightarrow> sd)
         in doc\<lparr>seoData := Some (sd\<lparr>SeoData.slug := Some (slug_of_name (ProductDocument.name doc))\<rparr>)\<rparr>)
      else doc)"

definition Product_save :: "ProductDocument \<Rightarrow> ProductDocument" where
  "Product_save doc = (Product_pre_save doc)\<lparr>ProductDocument.isModified_name := False\<rparr>"

text \<open>
  \<^verbatim>\<open>calculateDiscountedPrice()\<close> (lines 200 to 214), with \<^verbatim>\<open>new Date()\<close> as the argument
  \<open>now\<close>. The interface gives a discount a numeric value; its type is \<^verbatim>\<open>undefined\<close> or a
  string, compared with \<^verbatim>\<open>===\<close>.
\<close>

definition calculateDiscountedPrice :: "ProductDocument \<Rightarrow> Date \<Rightarrow> real" where
  "calculateDiscountedPrice doc now =
     (case ProductDocument.discount doc of
        None \<Rightarrow> ProductDocument.price doc
      | Some d \<Rightarrow>
          if (case startDate d of None \<Rightarrow> False | Some s \<Rightarrow> now < s) then ProductDocument.price doc
          else if (case endDate d of None \<Rightarrow> False | Some e \<Rightarrow> now > e) then ProductDocument.price doc
          else if discount_type d = Some ''percentage''
            then ProductDocument.price doc * (1 - discount_value d / 100)
          else if discount_type d = Some ''fixed''
            then max 0 (ProductDocument.price doc - discount_value d)
          else ProductDocument.price doc)"

definition updateRating :: "ProductDocument \<Rightarrow> real \<Rightarrow> ProductDocument" where
  "updateRating doc newRating =
     (let totalRating = average (ratings doc) * count (ratings doc) + newRating;
          count_v = count (ratings doc) + 1
      in Product_save (doc\<lparr>ratings := \<lparr>average = totalRating / count_v, count = count_v\<rparr>\<rparr>))"

definition isInStock :: "ProductDocument \<Rightarrow> bool" where
  "isInStock doc = (stock doc > 0)"

definition addToStock :: "ProductDocument \<Rightarrow> real \<Rightarrow> ProductDocument" where
  "addToStock doc qty = Product_save (doc\<lparr>stock := stock doc + qty\<rparr>)"

text \<open>
  \<^verbatim>\<open>updateRating\<close>, \<^verbatim>\<open>isInStock\<close> and \<^verbatim>\<open>addToStock\<close> above are lines 217 to 233.
  \<^verbatim>\<open>reduceStock(quantity)\<close> (lines 236 to 242): the outcome (\<open>Some\<close> error when the method throws) and the
  document as the call leaves it.
\<close>

definition reduceStock :: "ProductDocument \<Rightarrow> real \<Rightarrow> error option \<times> ProductDocument" where
  "reduceStock doc qty =
     (if stock doc < qty then (Some InsufficientStock, doc)
      else (None, Product_save (doc\<lparr>stock := stock doc - qty\<rparr>)))"

section \<open>Review (the review model) and the collections\<close>

record ReviewDocument =
  review_id :: ObjectId
  isNew :: bool
  user :: ObjectId
  product :: ObjectId
  rating :: real
  helpful :: real
  helpfulBy :: "ObjectId list"
  verified :: bool
  isApproved :: bool

record UserInteraction =
  userId :: ObjectId
  productId :: ObjectId

text \<open>
  The collections the hooks query, each a list of its documents. \<open>users\<close> holds the
  identifiers of the user documents.
\<close>

record Database =
  users :: "ObjectId list"
  orders :: "OrderDocument list"
  reviews :: "ReviewDocument list"
  products :: "ProductDocument list"
  interactions :: "UserInteraction list"

text \<open>\<^verbatim>\<open>Product.findById(id)\<close>: a fetched document has no modified path.\<close>

definition findById :: "ProductDocument list \<Rightarrow> ObjectId \<Rightarrow> ProductDocument option" where
  "findById coll pid =
     map_option (\<lambda>p. p\<lparr>ProductDocument.isModified_name := False\<rparr>)
       (find (\<lambda>p. product_id p = pid) coll)"

text \<open>The write of a fetched product, and of a review (an insert when it is new).\<close>

definition write_product :: "ProductDocument \<Rightarrow> ProductDocument list \<Rightarrow> ProductDocument list" where
  "write_product p coll = map (\<lambda>q. if product_id q = product_id p then p else q) coll"

definition write_review :: "ReviewDocument \<Rightarrow> ReviewDocument list \<Rightarrow> ReviewDocument list" where
  "write_review r coll =
     (if ReviewDocument.isNew r then coll @ [r\<lparr>ReviewDocument.isNew := False\<rparr>]
      else map (\<lambda>q. if review_id q = review_id r then r else q) coll)"

definition isVerifiedPurchase :: "Database \<Rightarrow> ReviewDocument \<Rightarrow> bool" where
  "isVerifiedPurchase db doc =
     list_ex (\<lambda>ord. OrderDocument.user ord = ReviewDocument.user doc
                \<and> list_ex (\<lambda>item. OrderItem.product item = ReviewDocument.product doc) (items ord)
                \<and> orderStatus ord = ''delivered'')
       (orders db)"

text \<open>
  The body shared, word for word, by \<^verbatim>\<open>post('save')\<close> (lines 156 to 176) and
  \<^verbatim>\<open>post('deleteOne')\<close> (lines 179 to 199) of the review schema: fetch the product,
  fetch its approved reviews, fold their ratings, store
  \<^verbatim>\<open>Math.round(averageRating * 10) / 10\<close> and the number of reviews, save the product.
  \<^verbatim>\<open>Math.round\<close> rounds to the nearest integer, a half upwards, as \<^const>\<open>round\<close> does.
\<close>

definition update_product_ratings :: "Database \<Rightarrow> ObjectId \<Rightarrow> Database" where
  "update_product_ratings db pid =
     (case findById (products db) pid of
        None \<Rightarrow> db
      | Some product_doc \<Rightarrow>
          (let found = filter (\<lambda>r. ReviewDocument.product r = pid \<and> isApproved r) (reviews db);
               totalRating = foldl (\<lambda>sum review. sum + rating review) 0 found;
               averageRating = (if length found > 0 then totalRating / real (length found) else 0);
               prod1 = product_doc\<lparr>ratings :=
                         \<lparr>average = real_of_int (round (averageRating * 10)) / 10,
                          count = real (length found)\<rparr>\<rparr>
           in db\<lparr>products := write_product (Product_save prod1) (products db)\<rparr>))"

definition Review_post_save :: "Database \<Rightarrow> ReviewDocument \<Rightarrow> Database" where
  "Review_post_save db doc = update_product_ratings db (ReviewDocument.product doc)"

definition Review_post_deleteOne :: "Database \<Rightarrow> ReviewDocument \<Rightarrow> Database" where
  "Review_post_deleteOne db doc = update_product_ratings db (ReviewDocument.product doc)"

text \<open>
  \<^verbatim>\<open>review.save()\<close>: the \<^verbatim>\<open>pre('save')\<close> hook sets \<open>verified\<close> on a new review, the
  document is written, and the \<^verbatim>\<open>post('save')\<close> hook runs. Validation and the unique
  index on (user, product) reject a save before the write, and then no hook after it runs:
  the model is of a save that goes through.
\<close>

definition Review_save :: "Database \<Rightarrow> ReviewDocument \<Rightarrow> Database \<times> ReviewDocument" where
  "Review_save db doc =
     (let d1 = (if ReviewDocument.isNew doc then doc\<lparr>verified := isVerifiedPurchase db doc\<rparr> else doc);
          db1 = db\<lparr>reviews := write_review d1 (reviews db)\<rparr>;
          d2 = d1\<lparr>ReviewDocument.isNew := False\<rparr>
      in (Review_post_save db1 d2, d2))"

text \<open>\<^verbatim>\<open>review.deleteOne()\<close> on a document: the delete, then the \<^verbatim>\<open>post('deleteOne')\<close> hook.\<close>

definition Review_deleteOne :: "Database \<Rightarrow> ReviewDocument \<Rightarrow> Database" where
  "Review_deleteOne db doc =
     Review_post_deleteOne
       (db\<lparr>reviews := filter (\<lambda>q. review_id q \<noteq> review_id doc) (reviews db)\<rparr>) doc"

text \<open>
  \<^verbatim>\<open>markAsHelpful(userId)\<close> (lines 202 to 209). \<open>helpfulBy\<close> is a Mongoose array,
  whose \<^verbatim>\<open>includes\<close> compares an ObjectId by its hexadecimal string, so it is membership
  in the list. The argument is the ObjectId built from \<^verbatim>\<open>userId\<close>.
\<close>

definition markAsHelpful ::
  "Database \<Rightarrow> ReviewDocument \<Rightarrow> ObjectId \<Rightarrow> Database \<times> ReviewDocument" where
  "markAsHelpful db doc userObjectId =
     (if \<not> (userObjectId \<in> set (helpfulBy doc))
      then Review_save db (doc\<lparr>helpfulBy := helpfulBy doc @ [userObjectId],
                               helpful := helpful doc + 1\<rparr>)
      else (db, doc))"

section \<open>User (models/User.ts)\<close>

text \<open>
  \<^verbatim>\<open>user.deleteOne()\<close> with its \<^verbatim>\<open>pre('deleteOne')\<close> hook (lines 180 to 190), which
  removes the user's orders, reviews and interactions with \<^verbatim>\<open>deleteMany\<close>. \<^verbatim>\<open>deleteMany\<close> is an operation
  of the model, not of a document: the \<^verbatim>\<open>post('deleteOne')\<close> hook of the review schema,
  registered with \<^verbatim>\<open>{ document: true, query: false }\<close>, does not run for it.
\<close>

definition User_deleteOne :: "Database \<Rightarrow> ObjectId \<Rightarrow> Database" where
  "User_deleteOne db uid =
     (let db1 = db\<lparr>orders := filter (\<lambda>ord. OrderDocument.user ord \<noteq> uid) (orders db)\<rparr>;
          db2 = db1\<lparr>reviews := filter (\<lambda>r. ReviewDocument.user r \<noteq> uid) (reviews db1)\<rparr>;
          db3 = db2\<lparr>interactions := filter (\<lambda>x. userId x \<noteq> uid) (interactions db2)\<rparr>
      in db3\<lparr>users := filter (\<lambda>u. u \<noteq> uid) (users db3)\<rparr>)"

section \<open>The specification's notions, and example documents\<close>

text \<open>
  The discount window in the words of the specification: the current time is within
  \<open>[startDate, endDate]\<close>, a missing bound being unbounded on its side.
\<close>

definition in_window :: "Discount \<Rightarrow> Date \<Rightarrow> bool" where
  "in_window d now =
     ((case startDate d of None \<Rightarrow> True | Some s \<Rightarrow> s \<le> now) \<and>
      (case endDate d of None \<Rightarrow> True | Some e \<Rightarrow> now \<le> e))"

definition example_product :: ProductDocument where
  "example_product =
     \<lparr>product_id = ''64b0000000000000000000a1'', isModified_name = True,
      name = ''Men's Running Shoes!!'', price = 100, stock = 5,
      ratings = \<lparr>average = 0, count = 0\<rparr>, discount = None, seoData = None\<rparr>"

definition example_discount :: "string \<Rightarrow> real \<Rightarrow> Discount" where
  "example_discount kind v =
     \<lparr>discount_type = Some kind, discount_value = v, startDate = Some 1000, endDate = Some 2000\<rparr>"

text \<open>
  The rating aggregate in the words of the specification: the count is the number of the
  product's reviews with the approved flag, the average is the sum of their ratings
  divided by that count and rounded to one decimal place, and 0 when there is none.
\<close>

definition rating_aggregate :: "ReviewDocument list \<Rightarrow> ObjectId \<Rightarrow> Ratings" where
  "rating_aggregate revs pid =
     (let approved = filter (\<lambda>r. ReviewDocument.product r = pid \<and> isApproved r) revs
      in \<lparr>average =
            (if approved = [] then 0
             else real_of_int (round (sum_list (map rating approved) / real (length approved) * 10)) / 10),
          count = real (length approved)\<rparr>)"

definition example_category :: CategoryDocument where
  "example_category =
     \<lparr>CategoryDocument.isModified_name = True, CategoryDocument.name = ''Men's Running Shoes!!'',
      CategoryDocument.slug = None\<rparr>"

definition example_review :: "ObjectId \<Rightarrow> ObjectId \<Rightarrow> real \<Rightarrow> ReviewDocument" where
  "example_review rid uid stars =
     \<lparr>review_id = rid, isNew = True, user = uid, product = ''64b0000000000000000000a1'',
      rating = stars, helpful = 0, helpfulBy = [], verified = False, isApproved = True\<rparr>"

definition example_db :: Database where
  "example_db =
     \<lparr>users = [''64b000000000000000000001'', ''64b000000000000000000002''], orders = [],
      reviews = [], products = [example_product], interactions = []\<rparr>"

text \<open>
  The example of the specification: two approved reviews of one product, with ratings 4
  and 2, created one after the other by two users.
\<close>

definition two_reviews_db :: Database where
  "two_reviews_db =
     fst (Review_save
            (fst (Review_save example_db
                    (example_review ''64b0000000000000000000c1'' ''64b000000000000000000001'' 4)))
            (example_review ''64b0000000000000000000c2'' ''64b000000000000000000002'' 2))"

section \<open>Properties of the order\<close>

subsection \<open>Rounding to a double\<close>

text \<open>
  \<open>binade\<close> is the exponent of its argument, so that \<open>round_double\<close> rounds in the right
  binade; natural numbers up to \<open>2 ^ 53\<close> are doubles.
\<close>

lemma bit_length_bounds:
  "0 < n \<Longrightarrow> 2 ^ (bit_length n - 1) \<le> n \<and> n < 2 ^ bit_length n"
proof (induction n rule: bit_length.induct)
  case (1 n)
  show ?case
  proof (cases "n div 2 = 0")
    case True
    with "1.prems" have n: "n = 1" by (simp add: div_eq_0_iff)
    have "bit_length (Suc 0) = Suc 0"
      by (simp add: bit_length.simps [of "Suc 0"] bit_length.simps [of 0])
    then show ?thesis by (simp add: n)
  next
    case False
    then have pos: "0 < n div 2" by simp
    from "1.IH" [OF _ pos] "1.prems"
    have ih: "2 ^ (bit_length (n div 2) - 1) \<le> n div 2" "n div 2 < 2 ^ bit_length (n div 2)"
      by simp_all
    have bl: "bit_length n = Suc (bit_length (n div 2))"
      using "1.prems" by (subst bit_length.simps) simp
    have pos': "0 < bit_length (n div 2)"
      using pos by (subst bit_length.simps) simp
    have "2 ^ (bit_length n - 1) = 2 * 2 ^ (bit_length (n div 2) - 1)"
      using pos' by (simp add: bl power_Suc [symmetric] del: power_Suc)
    also have "\<dots> \<le> 2 * (n div 2)" using ih(1) by simp
    also have "\<dots> \<le> n" by simp
    finally have lo: "2 ^ (bit_length n - 1) \<le> n" .
    have "n < 2 * (n div 2) + 2" by presburger
    also have "\<dots> \<le> 2 * 2 ^ bit_length (n div 2)" using ih(2) by simp
    finally have hi: "n < 2 ^ bit_length n" by (simp add: bl)
    from lo hi show ?thesis by simp
  qed
qed

lemma pow2_powi: "pow2 e = 2 powi e"
  by (simp add: pow2_def power_int_def field_simps)

lemma pow2_pos: "0 < pow2 e"
  by (simp add: pow2_def)

lemma pow2_nat: "pow2 (int k) = 2 ^ k"
  by (simp add: pow2_def)

lemma pow2_neg_nat: "pow2 (- int k) = 1 / 2 ^ k"
  by (cases "k = 0") (simp_all add: pow2_def)

lemma pow2_mono: "e1 \<le> e2 \<Longrightarrow> pow2 e1 \<le> pow2 e2"
  unfolding pow2_powi by (rule power_int_increasing) simp_all

lemma pow2_plus1: "pow2 (e + 1) = 2 * pow2 e"
  unfolding pow2_powi by (rule power_int_add_1') simp

lemma binade_bounds:
  assumes "0 < a"
  shows "pow2 (binade a) \<le> a \<and> a < pow2 (binade a + 1)"
proof (cases "1 \<le> a")
  case True
  define n where "n = nat \<lfloor>a\<rfloor>"
  have n1: "1 \<le> \<lfloor>a\<rfloor>" using True by simp
  then have pos: "0 < n" by (simp add: n_def)
  have "0 \<le> \<lfloor>a\<rfloor>" using n1 by linarith
  then have rn: "real n = of_int \<lfloor>a\<rfloor>" unfolding n_def by (rule of_nat_nat)
  define b where "b = bit_length n"
  from bit_length_bounds [OF pos] have lo: "2 ^ (b - 1) \<le> n" and hi: "n < 2 ^ b"
    by (simp_all add: b_def)
  have bpos: "0 < b"
    using pos unfolding b_def by (subst bit_length.simps) simp
  have e: "binade a = int (b - 1)"
    using True bpos by (simp add: binade_def n_def [symmetric] b_def [symmetric] of_nat_diff)
  have "pow2 (binade a) = real (2 ^ (b - 1))"
    by (simp add: e pow2_nat)
  also have "\<dots> \<le> real n" using lo by (simp only: of_nat_le_iff)
  also have "\<dots> \<le> a" by (simp add: rn)
  finally have 1: "pow2 (binade a) \<le> a" .
  have "a < real n + 1" by (simp add: rn)
  also have "\<dots> = real (n + 1)" by simp
  also have "\<dots> \<le> real (2 ^ b)" using hi by (simp only: of_nat_le_iff)
  also have "\<dots> = pow2 (binade a + 1)"
    using bpos by (simp add: e pow2_plus1 pow2_nat power_Suc [symmetric] del: power_Suc)
  finally show ?thesis using 1 by simp
next
  case False
  then have a1: "a < 1" by simp
  define k where "k = nat \<lfloor>1 / a\<rfloor>"
  have "1 < 1 / a" using assms a1 by simp
  then have k1: "1 \<le> \<lfloor>1 / a\<rfloor>" by simp
  then have pos: "0 < k" by (simp add: k_def)
  have "0 \<le> \<lfloor>1 / a\<rfloor>" using k1 by linarith
  then have rk: "real k = of_int \<lfloor>1 / a\<rfloor>" unfolding k_def by (rule of_nat_nat)
  define b where "b = bit_length k"
  from bit_length_bounds [OF pos] have lo: "2 ^ (b - 1) \<le> k" and hi: "k < 2 ^ b"
    by (simp_all add: b_def)
  have bpos: "0 < b"
    using pos unfolding b_def by (subst bit_length.simps) simp
  define j where "j = b - 1"
  have b: "b = Suc j" using bpos by (simp add: j_def)
  have "real (2 ^ j) \<le> real k" using lo by (simp only: of_nat_le_iff j_def)
  also have "\<dots> \<le> 1 / a" by (simp add: rk)
  finally have lo': "2 ^ j \<le> 1 / a" by simp
  have "1 / a < real k + 1" by (simp add: rk)
  also have "\<dots> = real (k + 1)" by simp
  also have "\<dots> \<le> real (2 ^ b)" using hi by (simp only: of_nat_le_iff)
  finally have hi': "1 / a < 2 ^ Suc j" by (simp add: b)
  from lo' assms have up: "a * 2 ^ j \<le> 1"
    by (simp add: field_simps)
  from hi' assms have down: "1 < a * 2 ^ Suc j"
    by (simp add: field_simps)
  have bin: "binade a = (if a * 2 ^ j = 1 then - int j else - int j - 1)"
    using False by (simp add: binade_def k_def [symmetric] b_def [symmetric] b pow2_nat Let_def)
  show ?thesis
  proof (cases "a * 2 ^ j = 1")
    case True
    then have a: "a = 1 / 2 ^ j" by (simp add: field_simps)
    have e: "binade a = - int j" using True by (simp add: bin)
    have "(1::real) / 2 ^ j < 2 * (1 / 2 ^ j)"
      by (simp add: field_simps)
    then show ?thesis
      unfolding e pow2_plus1 pow2_neg_nat by (simp add: a)
  next
    case ne: False
    have e: "binade a = - int (Suc j)" using ne by (simp add: bin)
    have e1: "binade a + 1 = - int j" using ne by (simp add: bin)
    have "1 / 2 ^ Suc j < a" using down by (simp add: field_simps)
    moreover have "a < 1 / 2 ^ j" using up ne by (simp add: field_simps)
    ultimately show ?thesis
      unfolding e1 pow2_neg_nat unfolding e pow2_neg_nat by simp
  qed
qed

lemma binade_unique:
  assumes "pow2 e \<le> a" "a < pow2 (e + 1)"
  shows "binade a = e"
proof -
  have pos: "0 < a" using assms(1) pow2_pos [of e] by linarith
  from binade_bounds [OF pos] have b: "pow2 (binade a) \<le> a" "a < pow2 (binade a + 1)"
    by simp_all
  have "\<not> binade a < e"
  proof
    assume "binade a < e"
    then have "pow2 (binade a + 1) \<le> pow2 e" by (intro pow2_mono) simp
    with b(2) assms(1) show False by linarith
  qed
  moreover have "\<not> e < binade a"
  proof
    assume "e < binade a"
    then have "pow2 (e + 1) \<le> pow2 (binade a)" by (intro pow2_mono) simp
    with b(1) assms(2) show False by linarith
  qed
  ultimately show ?thesis by linarith
qed

lemma round_half_even_int: "round_half_even (of_int k) = k"
  by (simp add: round_half_even_def)

lemma round_half_even_near:
  assumes "\<bar>y - of_int m\<bar> < 1 / 2"
  shows "round_half_even y = m"
proof (cases "of_int m \<le> y")
  case True
  with assms have "y < of_int m + 1 / 2" by linarith
  with True have f: "\<lfloor>y\<rfloor> = m" by (intro floor_unique) linarith+
  then show ?thesis
    using \<open>y < of_int m + 1 / 2\<close> by (simp add: round_half_even_def Let_def)
next
  case False
  with assms have lo: "of_int m - 1 / 2 < y" and hi: "y < of_int m" by linarith+
  then have f: "\<lfloor>y\<rfloor> = m - 1" by (intro floor_unique) simp_all
  then show ?thesis
    using lo by (simp add: round_half_even_def Let_def)
qed

text \<open>
  Rounding by certificate: the exponent \<open>e\<close> and the significand \<open>m\<close> of the nearest
  double of a positive real, checked by comparisons of numerals.
\<close>

lemma round_double_cert:
  assumes "pow2 e \<le> x" "x < pow2 (e + 1)" "- 1022 \<le> e"
    and "round_half_even (x / pow2 (e - 52)) = m"
    and "of_int m * pow2 (e - 52) < pow2 1024"
  shows "round_double x = Num (of_int m * pow2 (e - 52))"
proof -
  have pos: "0 < x" using assms(1) pow2_pos [of e] by linarith
  have ax: "\<bar>x\<bar> = x" using pos by simp
  have e: "max (binade x) (- 1022) = e"
    using assms(3) binade_unique [OF assms(1,2)] by simp
  show ?thesis
    using pos assms(5) by (simp add: round_double_def Let_def ax e assms(4))
qed

lemma binade_nat:
  assumes "0 < n"
  shows "binade (real n) = int (bit_length n) - 1"
proof -
  have "1 \<le> real n" using assms by simp
  then show ?thesis by (simp add: binade_def)
qed

lemma round_double_nat:
  assumes "n \<le> 2 ^ 53"
  shows "round_double (real n) = Num (real n)"
proof (cases "n = 0")
  case True
  then show ?thesis by (simp add: round_double_def)
next
  case False
  then have pos: "0 < n" by simp
  define b where "b = bit_length n"
  from bit_length_bounds [OF pos] have lo: "2 ^ (b - 1) \<le> n" and hi: "n < 2 ^ b"
    by (simp_all add: b_def)
  have bpos: "0 < b"
    using pos unfolding b_def by (subst bit_length.simps) simp
  have "(2::nat) ^ (b - 1) \<le> 2 ^ 53" using lo assms by linarith
  then have b54: "b - 1 \<le> 53" by (rule power_le_imp_le_exp [rotated]) simp
  have e: "max (binade (real n)) (- 1022) = int b - 1"
    using bpos by (simp add: binade_nat [OF pos] b_def)
  have "\<exists>k::int. real n / pow2 (int b - 1 - 52) = of_int k"
  proof (cases "b - 1 \<le> 52")
    case True
    then have eq: "int b - 1 - 52 = - int (53 - b)" using bpos by linarith
    have "pow2 (- int (53 - b)) = 1 / 2 ^ (53 - b)"
      by (cases "53 - b = 0") (simp_all add: pow2_def)
    then have p: "pow2 (int b - 1 - 52) = 1 / 2 ^ (53 - b)"
      by (simp only: eq)
    have "real n / pow2 (int b - 1 - 52) = of_int (int n * 2 ^ (53 - b))"
      unfolding p by simp
    then show ?thesis by blast
  next
    case False
    with b54 have b: "b = 54" by linarith
    with lo assms have n: "n = 2 ^ 53" by simp
    have "pow2 (int b - 1 - 52) = 2" by (simp add: b pow2_def)
    then have "real n / pow2 (int b - 1 - 52) = of_int (2 ^ 52)"
      by (simp add: n)
    then show ?thesis by blast
  qed
  then obtain k :: int where k: "real n / pow2 (int b - 1 - 52) = of_int k" ..
  define u where "u = pow2 (max (binade (real n)) (- 1022) - 52)"
  have u: "u = pow2 (int b - 1 - 52)"
    by (simp only: u_def e)
  have upos: "0 < u"
    unfolding u by (rule pow2_pos)
  have "real n / u = of_int k"
    unfolding u by (rule k)
  then have r: "of_int (round_half_even (real n / u)) * u = real n"
    using upos by (simp add: round_half_even_int field_simps)
  have small: "\<not> pow2 1024 \<le> real n"
  proof -
    have "real n \<le> 2 ^ 53" using assms by (metis of_nat_le_iff of_nat_numeral of_nat_power)
    also have "\<dots> < (2::real) ^ 1024" by (rule power_strict_increasing) simp_all
    finally show ?thesis by (simp add: pow2_def)
  qed
  show ?thesis
    using pos small by (simp add: round_double_def Let_def u_def [symmetric] r)
qed



text \<open>The roundings that the example orders need, each with its exponent and significand.\<close>

lemma round_double_1: "round_double (13 / 5)
     = Num (5854679515581645 / 2251799813685248)"
  using round_double_cert [of "1" "13 / 5" "5854679515581645"]
  by (simp add: pow2_def round_half_even_def Let_def)

lemma round_double_2: "round_double (13)
     = Num (13)"
  using round_double_cert [of "3" "13" "7318349394477056"]
  by (simp add: pow2_def round_half_even_def Let_def)

lemma round_double_3: "round_double (76110833702561385 / 2251799813685248)
     = Num (4756927106410087 / 140737488355328)"
  using round_double_cert [of "5" "76110833702561385 / 2251799813685248" "4756927106410087"]
  by (simp add: pow2_def round_half_even_def Let_def)

lemma round_double_4: "round_double (4756927106410087 / 140737488355328)
     = Num (4756927106410087 / 140737488355328)"
  using round_double_cert [of "5" "4756927106410087 / 140737488355328" "4756927106410087"]
  by (simp add: pow2_def round_half_even_def Let_def)

lemma round_double_5: "round_double (8277 / 5)
     = Num (3640263097240781 / 2199023255552)"
  using round_double_cert [of "10" "8277 / 5" "7280526194481562"]
  by (simp add: pow2_def round_half_even_def Let_def)

lemma round_double_6: "round_double (3)
     = Num (3)"
  using round_double_cert [of "1" "3" "6755399441055744"]
  by (simp add: pow2_def round_half_even_def Let_def)

lemma round_double_7: "round_double (10920789291722343 / 2199023255552)
     = Num (1365098661465293 / 274877906944)"
  using round_double_cert [of "12" "10920789291722343 / 2199023255552" "5460394645861172"]
  by (simp add: pow2_def round_half_even_def Let_def)

lemma round_double_8: "round_double (703687441776640103 / 140737488355328)
     = Num (5497558138880001 / 1099511627776)"
  using round_double_cert [of "12" "703687441776640103 / 140737488355328" "5497558138880001"]
  by (simp add: pow2_def round_half_even_def Let_def)

lemma round_double_9: "round_double (2 / 25)
     = Num (5764607523034235 / 72057594037927936)"
  using round_double_cert [of "- 4" "2 / 25" "5764607523034235"]
  by (simp add: pow2_def round_half_even_def Let_def)

lemma round_double_10: "round_double (1)
     = Num (1)"
  using round_double_cert [of "0" "1" "4503599627370496"]
  by (simp add: pow2_def round_half_even_def Let_def)

lemma round_double_11: "round_double (5764607523034235 / 72057594037927936)
     = Num (5764607523034235 / 72057594037927936)"
  using round_double_cert [of "- 4" "5764607523034235 / 72057594037927936" "5764607523034235"]
  by (simp add: pow2_def round_half_even_def Let_def)

lemma round_double_12: "round_double (124998 / 25)
     = Num (2748735088974889 / 549755813888)"
  using round_double_cert [of "12" "124998 / 25" "5497470177949778"]
  by (simp add: pow2_def round_half_even_def Let_def)

lemma round_double_13: "round_double (2748735088974889 / 549755813888)
     = Num (2748735088974889 / 549755813888)"
  using round_double_cert [of "12" "2748735088974889 / 549755813888" "5497470177949778"]
  by (simp add: pow2_def round_half_even_def Let_def)

lemma round_double_14: "round_double (360287970189639685243 / 72057594037927936)
     = Num (5000)"
  using round_double_cert [of "12" "360287970189639685243 / 72057594037927936" "5497558138880000"]
  by (simp add: pow2_def round_half_even_def Let_def)

lemma round_double_15: "round_double (4 / 25)
     = Num (5764607523034235 / 36028797018963968)"
  using round_double_cert [of "- 3" "4 / 25" "5764607523034235"]
  by (simp add: pow2_def round_half_even_def Let_def)

lemma round_double_16: "round_double (2161727821137838125 / 4503599627370496)
     = Num (480)"
  using round_double_cert [of "8" "2161727821137838125 / 4503599627370496" "8444249301319680"]
  by (simp add: pow2_def round_half_even_def Let_def)

lemma round_double_17: "round_double (3480)
     = Num (3480)"
  using round_double_cert [of "11" "3480" "7652600929320960"]
  by (simp add: pow2_def round_half_even_def Let_def)

lemma round_double_18: "round_double (3680)
     = Num (3680)"
  using round_double_cert [of "11" "3680" "8092405580431360"]
  by (simp add: pow2_def round_half_even_def Let_def)



lemmas round_double_examples =
  round_double_1 round_double_2 round_double_3 round_double_4 round_double_5 round_double_6
  round_double_7 round_double_8 round_double_9 round_double_10 round_double_11 round_double_12
  round_double_13 round_double_14 round_double_15 round_double_16 round_double_17 round_double_18

subsection \<open>The totals\<close>

lemma is_natural_iff: "is_natural x \<longleftrightarrow> (\<exists>n. x = Num (real n))"
proof
  assume "is_natural x"
  then obtain a where x: "x = Num a" and a: "0 \<le> a" "a = of_int \<lfloor>a\<rfloor>"
    by (auto simp: is_natural_def split: js_number.splits)
  from a have "a = real (nat \<lfloor>a\<rfloor>)"
    by (metis of_int_of_nat_eq of_nat_nat zero_le_floor)
  with x show "\<exists>n. x = Num (real n)" by blast
next
  assume "\<exists>n. x = Num (real n)"
  then show "is_natural x" by (auto simp: is_natural_def)
qed

lemma js_mul_nat:
  "p * q \<le> 2 ^ 53 \<Longrightarrow> js_mul (Num (real p)) (Num (real q)) = Num (real (p * q))"
  using round_double_nat [of "p * q"] by simp

lemma js_add_nat:
  "a + b \<le> 2 ^ 53 \<Longrightarrow> js_add (Num (real a)) (Num (real b)) = Num (real (a + b))"
  using round_double_nat [of "a + b"] by simp

lemma exact_subtotal_Cons:
  "exact_subtotal (item # its)
     = the_real (OrderItem.price item) * the_real (quantity item) + exact_subtotal its"
  by (simp add: exact_subtotal_def)

lemma exact_subtotal_nat:
  "list_all (\<lambda>i. is_natural (OrderItem.price i) \<and> is_natural (quantity i)) its \<Longrightarrow>
   \<exists>n. exact_subtotal its = real n"
proof (induction its)
  case Nil
  then show ?case by (simp add: exact_subtotal_def)
next
  case (Cons item its)
  then obtain p q n where "OrderItem.price item = Num (real p)" "quantity item = Num (real q)"
      "exact_subtotal its = real n"
    by (auto simp: is_natural_iff)
  then have "exact_subtotal (item # its) = real (p * q + n)"
    by (simp add: exact_subtotal_Cons)
  then show ?case by blast
qed

lemma foldl_exact:
  assumes "list_all (\<lambda>i. is_natural (OrderItem.price i) \<and> is_natural (quantity i)) its"
    and "real a + exact_subtotal its \<le> 2 ^ 53"
  shows "foldl (\<lambda>sum item. js_add sum (js_mul (OrderItem.price item) (quantity item)))
           (Num (real a)) its
         = Num (real a + exact_subtotal its)"
  using assms
proof (induction its arbitrary: a)
  case Nil
  then show ?case by (simp add: exact_subtotal_def)
next
  case (Cons item its)
  from Cons.prems(1) obtain p q where pq: "OrderItem.price item = Num (real p)"
      "quantity item = Num (real q)"
    by (auto simp: is_natural_iff)
  from Cons.prems(1) have rest: "list_all (\<lambda>i. is_natural (OrderItem.price i) \<and> is_natural (quantity i)) its"
    by simp
  from exact_subtotal_nat [OF rest] obtain n where n: "exact_subtotal its = real n" ..
  have total: "real (a + p * q + n) \<le> 2 ^ 53"
    using Cons.prems(2) by (simp add: exact_subtotal_Cons pq n)
  then have bound: "a + p * q + n \<le> 2 ^ 53"
    by (metis of_nat_le_iff of_nat_numeral of_nat_power)
  then have "p * q \<le> 2 ^ 53" and "a + p * q \<le> 2 ^ 53"
    by linarith+
  then have step: "js_add (Num (real a)) (js_mul (OrderItem.price item) (quantity item))
      = Num (real (a + p * q))"
    by (simp only: pq js_mul_nat js_add_nat)
  have le: "real (a + p * q) + exact_subtotal its \<le> 2 ^ 53"
    using total by (simp add: n)
  let ?f = "\<lambda>sum item. js_add sum (js_mul (OrderItem.price item) (quantity item))"
  have "foldl ?f (Num (real a)) (item # its)
      = foldl ?f (js_add (Num (real a)) (js_mul (OrderItem.price item) (quantity item))) its"
    by simp
  also have "\<dots> = foldl ?f (Num (real (a + p * q))) its"
    by (simp only: step)
  also have "\<dots> = Num (real (a + p * q) + exact_subtotal its)"
    by (rule Cons.IH [OF rest le])
  also have "\<dots> = Num (real a + exact_subtotal (item # its))"
    by (simp add: exact_subtotal_Cons pq)
  finally show ?case .
qed

lemma subtotal_calculateTotals:
  "subtotal (calculateTotals doc)
     = foldl (\<lambda>sum item. js_add sum (js_mul (OrderItem.price item) (quantity item))) (Num 0)
         (items doc)"
  by (simp add: calculateTotals_def Let_def)

text \<open>
  C1, as the code has it. For every order and every list of line items,
  \<^verbatim>\<open>calculateTotals\<close> returns a pricing record computed in double arithmetic: the
  subtotal is the sum over the items of unit price times quantity, accumulated from 0 in
  the order of the items, each product and each partial sum rounded to the nearest double;
  it is the exact sum when every price and every quantity is a natural number and the sum
  is at most \<open>2 ^ 53\<close>. The tax is the rounded product of that subtotal and the double
  nearest to 0.16, the shipping is 0 when that subtotal is strictly greater than 5000 and
  200 otherwise, the discount is the discount of the order's pricing snapshot (0 when
  there is none, and 0 when it is \<^verbatim>\<open>NaN\<close>), and the total is subtotal plus tax, plus
  shipping, minus that discount, each step rounded.
\<close>

theorem calculateTotals_double:
  "tax (calculateTotals doc) = js_mul (subtotal (calculateTotals doc)) (round_double 0.16) \<and>
   shipping (calculateTotals doc)
     = (if js_gt (subtotal (calculateTotals doc)) (Num 5000) then Num 0 else Num 200) \<and>
   OrderPricing.discount (calculateTotals doc)
     = (case pricing doc of
          None \<Rightarrow> Num 0
        | Some p \<Rightarrow> if js_truthy (OrderPricing.discount p) then OrderPricing.discount p else Num 0) \<and>
   total' (calculateTotals doc)
     = js_sub (js_add (js_add (subtotal (calculateTotals doc)) (tax (calculateTotals doc)))
                 (shipping (calculateTotals doc)))
         (OrderPricing.discount (calculateTotals doc)) \<and>
   subtotal (calculateTotals (doc\<lparr>items := []\<rparr>)) = Num 0 \<and>
   subtotal (calculateTotals (doc\<lparr>items := its @ [item]\<rparr>))
     = js_add (subtotal (calculateTotals (doc\<lparr>items := its\<rparr>)))
         (js_mul (OrderItem.price item) (quantity item)) \<and>
   (list_all (\<lambda>i. is_natural (OrderItem.price i) \<and> is_natural (quantity i)) (items doc)
      \<and> exact_subtotal (items doc) \<le> 2 ^ 53 \<longrightarrow>
    subtotal (calculateTotals doc) = Num (exact_subtotal (items doc)))"
proof -
  have exact: "list_all (\<lambda>i. is_natural (OrderItem.price i) \<and> is_natural (quantity i)) (items doc)
      \<and> exact_subtotal (items doc) \<le> 2 ^ 53 \<longrightarrow>
    subtotal (calculateTotals doc) = Num (exact_subtotal (items doc))"
    using foldl_exact [of "items doc" 0] by (simp add: subtotal_calculateTotals)
  have rest: "tax (calculateTotals doc) = js_mul (subtotal (calculateTotals doc)) (round_double 0.16)"
    "shipping (calculateTotals doc)
     = (if js_gt (subtotal (calculateTotals doc)) (Num 5000) then Num 0 else Num 200)"
    "OrderPricing.discount (calculateTotals doc)
     = (case pricing doc of
          None \<Rightarrow> Num 0
        | Some p \<Rightarrow> if js_truthy (OrderPricing.discount p) then OrderPricing.discount p else Num 0)"
    "total' (calculateTotals doc)
     = js_sub (js_add (js_add (subtotal (calculateTotals doc)) (tax (calculateTotals doc)))
                 (shipping (calculateTotals doc)))
         (OrderPricing.discount (calculateTotals doc))"
    by (simp_all add: calculateTotals_def Let_def pricing_discount_def js_or_def split: option.split)
  have fold: "subtotal (calculateTotals (doc\<lparr>items := []\<rparr>)) = Num 0"
    "subtotal (calculateTotals (doc\<lparr>items := its @ [item]\<rparr>))
     = js_add (subtotal (calculateTotals (doc\<lparr>items := its\<rparr>)))
         (js_mul (OrderItem.price item) (quantity item))"
    by (simp_all add: subtotal_calculateTotals)
  from rest fold exact show ?thesis by blast
qed

lemma tax_3000: "js_mul (Num 3000) (round_double 0.16) = Num 480"
  by (simp add: round_double_examples)

lemma total_3680: "js_sub (js_add (js_add (Num 3000) (Num 480)) (Num 200)) (Num 0) = Num 3680"
  by (simp add: js_sub_def round_double_examples)

text \<open>
  The order \<open>new_order\<close>, two units at 1500: subtotal 3000, tax 480, shipping 200, total 3680.
\<close>

theorem calculateTotals_witness:
  "subtotal (calculateTotals new_order) = Num 3000 \<and>
   tax (calculateTotals new_order) = Num 480 \<and>
   shipping (calculateTotals new_order) = Num 200 \<and>
   OrderPricing.discount (calculateTotals new_order) = Num 0 \<and>
   total' (calculateTotals new_order) = Num 3680"
proof -
  have nat: "list_all (\<lambda>i. is_natural (OrderItem.price i) \<and> is_natural (quantity i)) (items new_order)"
    by (simp add: new_order_def is_natural_def)
  have ex: "exact_subtotal (items new_order) = 3000"
    by (simp add: new_order_def exact_subtotal_def)
  have p: "pricing new_order = Some \<lparr>subtotal = Num 3000, tax = Num 480, shipping = Num 200,
      discount = Num 0, total' = Num 3680\<rparr>"
    by (simp add: new_order_def)
  note t = calculateTotals_double
    [where doc = new_order and its = "[]" and item = "hd (items new_order)"]
  have tax: "tax (calculateTotals new_order)
      = js_mul (subtotal (calculateTotals new_order)) (round_double 0.16)"
    and ship: "shipping (calculateTotals new_order)
      = (if js_gt (subtotal (calculateTotals new_order)) (Num 5000) then Num 0 else Num 200)"
    and disc: "OrderPricing.discount (calculateTotals new_order)
      = (case pricing new_order of
          None \<Rightarrow> Num 0
        | Some p \<Rightarrow> if js_truthy (OrderPricing.discount p) then OrderPricing.discount p else Num 0)"
    and tot: "total' (calculateTotals new_order)
     = js_sub (js_add (js_add (subtotal (calculateTotals new_order)) (tax (calculateTotals new_order)))
                 (shipping (calculateTotals new_order)))
         (OrderPricing.discount (calculateTotals new_order))"
    and exact: "list_all (\<lambda>i. is_natural (OrderItem.price i) \<and> is_natural (quantity i)) (items new_order)
      \<and> exact_subtotal (items new_order) \<le> 2 ^ 53 \<longrightarrow>
    subtotal (calculateTotals new_order) = Num (exact_subtotal (items new_order))"
    using t by blast+
  from exact nat have 1: "subtotal (calculateTotals new_order) = Num 3000"
    by (simp add: ex)
  have 2: "tax (calculateTotals new_order) = Num 480"
    by (simp only: tax 1 tax_3000)
  have 3: "shipping (calculateTotals new_order) = Num 200"
    by (simp add: ship 1)
  have 4: "OrderPricing.discount (calculateTotals new_order) = Num 0"
    by (simp add: disc p)
  have 5: "total' (calculateTotals new_order) = Num 3680"
    by (simp only: tot 1 2 3 4 total_3680)
  from 1 2 3 4 5 show ?thesis by blast
qed

lemma subtotal_a: "subtotal (calculateTotals (order_of_items [(2.6, 13), (1655.4, 3)]))
     = Num (5497558138880001 / 1099511627776)"
  by (simp add: calculateTotals_def order_of_items_def new_order_def Let_def round_double_examples)

lemma shipping_a: "shipping (calculateTotals (order_of_items [(2.6, 13), (1655.4, 3)])) = Num 0"
  using subtotal_a by (simp add: calculateTotals_def Let_def)

lemma exact_a: "exact_subtotal (items (order_of_items [(2.6, 13), (1655.4, 3)]))
     = 11258999068426240617 / 2251799813685248"
  by (simp add: exact_subtotal_def order_of_items_def new_order_def round_double_examples)

lemma subtotal_b: "subtotal (calculateTotals (order_of_items [(0.08, 1), (4999.92, 1)])) = Num 5000"
  by (simp add: calculateTotals_def order_of_items_def new_order_def Let_def round_double_examples)

lemma shipping_b: "shipping (calculateTotals (order_of_items [(0.08, 1), (4999.92, 1)])) = Num 200"
  using subtotal_b by (simp add: calculateTotals_def Let_def)

lemma exact_b: "exact_subtotal (items (order_of_items [(0.08, 1), (4999.92, 1)]))
     = 360287970189639685243 / 72057594037927936"
  by (simp add: exact_subtotal_def order_of_items_def new_order_def round_double_examples)

lemma valid_ab:
  "Order_valid (order_of_items [(2.6, 13), (1655.4, 3)])"
  "Order_valid (order_of_items [(0.08, 1), (4999.92, 1)])"
  by (simp_all add: Order_valid_def order_of_items_def new_order_def falsy_string_def
      OrderItem_valid_def OrderPricing_valid_def js_ge_def order_statuses_def
      round_double_examples)

text \<open>
  C1 as stated fails, because the arithmetic of the method rounds. For 13 units at 2.6 and
  3 units at 1655.4, 5000 in decimal arithmetic, the subtotal returned is
  5000.000000000001 (the fraction below), which is neither 5000 nor the exact sum of the
  products of the stored doubles, and the shipping is 0. For one unit at 0.08 and one at
  4999.92 the exact sum of the stored doubles is above 5000, and the subtotal returned is
  5000 and the shipping 200. Both orders pass validation.
\<close>

theorem calculateTotals_counterexample:
  "Order_valid (order_of_items [(2.6, 13), (1655.4, 3)]) \<and>
   (13 * 2.6 + 3 * 1655.4 :: real) = 5000 \<and>
   subtotal (calculateTotals (order_of_items [(2.6, 13), (1655.4, 3)]))
     = Num (5497558138880001 / 1099511627776) \<and>
   exact_subtotal (items (order_of_items [(2.6, 13), (1655.4, 3)]))
     = 11258999068426240617 / 2251799813685248 \<and>
   subtotal (calculateTotals (order_of_items [(2.6, 13), (1655.4, 3)]))
     \<noteq> Num (exact_subtotal (items (order_of_items [(2.6, 13), (1655.4, 3)]))) \<and>
   shipping (calculateTotals (order_of_items [(2.6, 13), (1655.4, 3)])) = Num 0 \<and>
   Order_valid (order_of_items [(0.08, 1), (4999.92, 1)]) \<and>
   5000 < exact_subtotal (items (order_of_items [(0.08, 1), (4999.92, 1)])) \<and>
   subtotal (calculateTotals (order_of_items [(0.08, 1), (4999.92, 1)])) = Num 5000 \<and>
   shipping (calculateTotals (order_of_items [(0.08, 1), (4999.92, 1)])) = Num 200"
proof -
  have 1: "(13 * 2.6 + 3 * 1655.4 :: real) = 5000"
    by simp
  have 2: "subtotal (calculateTotals (order_of_items [(2.6, 13), (1655.4, 3)]))
     \<noteq> Num (exact_subtotal (items (order_of_items [(2.6, 13), (1655.4, 3)])))"
    unfolding subtotal_a exact_a by simp
  have 3: "5000 < exact_subtotal (items (order_of_items [(0.08, 1), (4999.92, 1)]))"
    unfolding exact_b by simp
  from valid_ab 1 subtotal_a exact_a 2 shipping_a 3 subtotal_b shipping_b
  show ?thesis by (intro conjI)
qed

text \<open>\<^verbatim>\<open>canBeCancelled()\<close> on the seven statuses of the schema.\<close>

lemma canBeCancelled_statuses:
  "canBeCancelled (doc\<lparr>orderStatus := ''pending''\<rparr>)"
  "canBeCancelled (doc\<lparr>orderStatus := ''confirmed''\<rparr>)"
  "canBeCancelled (doc\<lparr>orderStatus := ''processing''\<rparr>)"
  "\<not> canBeCancelled (doc\<lparr>orderStatus := ''shipped''\<rparr>)"
  "\<not> canBeCancelled (doc\<lparr>orderStatus := ''delivered''\<rparr>)"
  "\<not> canBeCancelled (doc\<lparr>orderStatus := ''cancelled''\<rparr>)"
  "\<not> canBeCancelled (doc\<lparr>orderStatus := ''refunded''\<rparr>)"
  by (simp_all add: canBeCancelled_def)

subsection \<open>What a save does to a document\<close>

lemma Order_save_outcome:
  "fst (Order_save generated now doc) = (if Order_valid doc then None else Some ValidationError)"
  by (simp add: Order_save_def)

lemma Order_save_fields:
  "orderStatus (snd (Order_save generated now doc)) = orderStatus doc"
  "actualDelivery (snd (Order_save generated now doc)) = actualDelivery doc"
  "OrderDocument.isNew (snd (Order_save generated now doc))
     = (OrderDocument.isNew doc \<and> \<not> Order_valid doc)"
  by (simp_all add: Order_save_def pre_save_timeline_def pre_save_orderNumber_def)

lemma Order_save_timeline:
  "timeline (snd (Order_save generated now doc)) =
     timeline doc @
       (if Order_valid doc \<and> OrderDocument.isNew doc
        then [\<lparr>status = ''pending'', message = Some ''Order has been placed'', timestamp = now\<rparr>]
        else [])"
  by (simp add: Order_save_def pre_save_timeline_def pre_save_orderNumber_def)

text \<open>
  The hook that generates the order number never does so: a document without a number
  fails validation before the hook runs, and a document with one is left as it is.
\<close>

lemma orderNumber_never_generated:
  "orderNumber (snd (Order_save generated now doc)) = orderNumber doc"
  by (simp add: Order_save_def pre_save_timeline_def pre_save_orderNumber_def Order_valid_def)

lemma Order_valid_new_order: "Order_valid new_order" "OrderDocument.isNew new_order"
  by (simp_all add: Order_valid_def new_order_def falsy_string_def OrderItem_valid_def
      OrderPricing_valid_def js_ge_def order_statuses_def)

lemma saved_order_eq:
  "saved_order = new_order
     \<lparr>OrderDocument.isNew := False,
      timeline := [\<lparr>status = ''pending'', message = Some ''Order has been placed'',
                    timestamp = 1000\<rparr>]\<rparr>"
  using Order_valid_new_order
  by (simp add: saved_order_def Order_save_def pre_save_timeline_def pre_save_orderNumber_def
      new_order_def falsy_string_def)


text \<open>
  C5. For every order, \<^verbatim>\<open>canBeReturned()\<close> is true if and only if the order status is
  delivered, an actual-delivery timestamp exists, and the time elapsed since delivery is at
  most 7 days (604,800,000 ms); for a delivered order it is true at exactly 7 days after
  delivery and false at exactly 7 days plus 1 ms.
\<close>

theorem canBeReturned_iff:
  "canBeReturned doc now =
     (orderStatus doc = ''delivered'' \<and>
      (\<exists>delivered_at. actualDelivery doc = Some delivered_at \<and> now - delivered_at \<le> 604800000)) \<and>
   canBeReturned (doc\<lparr>orderStatus := ''delivered'', actualDelivery := Some t\<rparr>) (t + 604800000) \<and>
   \<not> canBeReturned (doc\<lparr>orderStatus := ''delivered'', actualDelivery := Some t\<rparr>) (t + 604800000 + 1)"
  by (auto simp: canBeReturned_def Let_def split: option.splits)

text \<open>An order delivered at time 5000, asked at the boundary and one millisecond later.\<close>

theorem canBeReturned_witness:
  "canBeReturned (saved_order\<lparr>orderStatus := ''delivered'', actualDelivery := Some 5000\<rparr>) 604805000 \<and>
   \<not> canBeReturned (saved_order\<lparr>orderStatus := ''delivered'', actualDelivery := Some 5000\<rparr>) 604805001 \<and>
   \<not> canBeReturned (saved_order\<lparr>orderStatus := ''shipped'', actualDelivery := Some 5000\<rparr>) 6000 \<and>
   \<not> canBeReturned (saved_order\<lparr>orderStatus := ''delivered''\<rparr>) 6000"
proof -
  have "actualDelivery saved_order = None"
    by (simp add: saved_order_def new_order_def Order_save_fields)
  then show ?thesis
    using canBeReturned_iff [of "saved_order\<lparr>orderStatus := ''delivered''\<rparr>" 6000 5000]
      canBeReturned_iff [of "saved_order\<lparr>orderStatus := ''shipped'', actualDelivery := Some 5000\<rparr>" 6000 5000]
    by simp
qed

subsection \<open>The status transition\<close>










subsection \<open>Creation\<close>

text \<open>
  What the creation hook does on the first save of a valid new order: it appends one
  pending entry after the entries the order was constructed with. For an order constructed
  with an empty timeline, the default of the schema, that entry is the whole timeline.
\<close>

lemma creation_appends_pending:
  assumes "OrderDocument.isNew doc" "Order_valid doc"
  shows "fst (Order_save generated now doc) = None"
    and "timeline (snd (Order_save generated now doc)) =
           timeline doc @
             [\<lparr>status = ''pending'', message = Some ''Order has been placed'', timestamp = now\<rparr>]"
  using assms by (simp_all add: Order_save_outcome Order_save_timeline)

lemma creation_of_new_order:
  "timeline saved_order =
     [\<lparr>status = ''pending'', message = Some ''Order has been placed'', timestamp = 1000\<rparr>]"
  by (simp add: saved_order_eq)

text \<open>
  C8. Every newly created order should have, before any status transition, a timeline of
  exactly one entry, with status pending. The hook is written to add the initial entry, and
  for an order constructed without a timeline it does (\<open>creation_of_new_order\<close>). For
  \<open>imported_order\<close>, a valid new order constructed with one shipped entry, the save is
  accepted and the timeline has two entries, the pending one last.
\<close>

theorem creation_timeline_imported:
  "OrderDocument.isNew imported_order \<and> Order_valid imported_order \<and>
   fst (Order_save ''ORD-00000002-XYZ789'' 1000 imported_order) = None \<and>
   map status (timeline (snd (Order_save ''ORD-00000002-XYZ789'' 1000 imported_order)))
     = [''shipped'', ''pending'']"
proof -
  have new: "OrderDocument.isNew imported_order"
    by (simp add: imported_order_def new_order_def)
  have valid: "Order_valid imported_order"
    by (simp add: imported_order_def Order_valid_def new_order_def falsy_string_def
        OrderItem_valid_def OrderPricing_valid_def OrderTimeline_valid_def js_ge_def
        order_statuses_def)
  have "timeline imported_order
      = [\<lparr>status = ''shipped'', message = Some ''Imported'', timestamp = 10\<rparr>]"
    by (simp add: imported_order_def)
  then show ?thesis
    using new valid by (simp add: Order_save_outcome Order_save_timeline)
qed

section \<open>Properties of the product\<close>

lemma stock_Product_save: "stock (Product_save doc) = stock doc"
  by (simp add: Product_save_def Product_pre_save_def Let_def)

text \<open>
  C3. For every product and every requested quantity, \<^verbatim>\<open>reduceStock\<close> throws the
  insufficient-stock error and leaves the document, and so the stock, as it was when the
  quantity is strictly greater than the stock; otherwise it succeeds and the stock is
  lower by exactly the quantity.
\<close>

theorem reduceStock_spec:
  "(qty > stock doc \<longrightarrow> reduceStock doc qty = (Some InsufficientStock, doc)) \<and>
   (\<not> qty > stock doc \<longrightarrow>
      fst (reduceStock doc qty) = None \<and>
      stock (snd (reduceStock doc qty)) = stock doc - qty)"
  by (simp add: reduceStock_def stock_Product_save)

text \<open>On a stock of 5: a quantity of 6 fails and the stock stays 5; a quantity of 5 leaves 0.\<close>

theorem reduceStock_witness:
  "stock example_product = 5 \<and>
   reduceStock example_product 6 = (Some InsufficientStock, example_product) \<and>
   fst (reduceStock example_product 5) = None \<and>
   stock (snd (reduceStock example_product 5)) = 0"
proof -
  have s: "stock example_product = 5"
    by (simp add: example_product_def)
  show ?thesis
    using s reduceStock_spec [where doc = example_product and qty = 6]
      reduceStock_spec [where doc = example_product and qty = 5]
    by simp
qed

text \<open>
  C6. For every product, the discounted price is the base price when there is no discount,
  when the current time is outside the discount's window, or when the type of the discount
  is neither percentage nor fixed; for a percentage discount in its window it is
  price times (1 - value/100); for a fixed discount in its window it is the maximum of 0
  and price minus value, which is never negative.
\<close>

theorem calculateDiscountedPrice_spec:
  "(ProductDocument.discount doc = None \<longrightarrow>
      calculateDiscountedPrice doc now = ProductDocument.price doc) \<and>
   (\<forall>d. ProductDocument.discount doc = Some d \<and> \<not> in_window d now \<longrightarrow>
      calculateDiscountedPrice doc now = ProductDocument.price doc) \<and>
   (\<forall>d. ProductDocument.discount doc = Some d \<and> in_window d now
        \<and> discount_type d \<noteq> Some ''percentage'' \<and> discount_type d \<noteq> Some ''fixed'' \<longrightarrow>
      calculateDiscountedPrice doc now = ProductDocument.price doc) \<and>
   (\<forall>d. ProductDocument.discount doc = Some d \<and> in_window d now
        \<and> discount_type d = Some ''percentage'' \<longrightarrow>
      calculateDiscountedPrice doc now = ProductDocument.price doc * (1 - discount_value d / 100)) \<and>
   (\<forall>d. ProductDocument.discount doc = Some d \<and> in_window d now
        \<and> discount_type d = Some ''fixed'' \<longrightarrow>
      calculateDiscountedPrice doc now = max 0 (ProductDocument.price doc - discount_value d) \<and>
      0 \<le> calculateDiscountedPrice doc now)"
  by (auto simp: calculateDiscountedPrice_def in_window_def split: option.splits)

text \<open>
  Price 100 and the window [1000, 2000]: without a discount 100; 20 percent gives 100 after
  and before the window and 80 inside; a fixed 150 gives 0; an unknown type gives 100.
\<close>

theorem calculateDiscountedPrice_witness:
  "calculateDiscountedPrice example_product 1500 = 100 \<and>
   calculateDiscountedPrice
     (example_product\<lparr>ProductDocument.discount := Some (example_discount ''percentage'' 20)\<rparr>) 2001 = 100 \<and>
   calculateDiscountedPrice
     (example_product\<lparr>ProductDocument.discount := Some (example_discount ''percentage'' 20)\<rparr>) 999 = 100 \<and>
   calculateDiscountedPrice
     (example_product\<lparr>ProductDocument.discount := Some (example_discount ''percentage'' 20)\<rparr>) 1500 = 80 \<and>
   calculateDiscountedPrice
     (example_product\<lparr>ProductDocument.discount := Some (example_discount ''fixed'' 150)\<rparr>) 1500 = 0 \<and>
   calculateDiscountedPrice
     (example_product\<lparr>ProductDocument.discount := Some (example_discount ''bogus'' 150)\<rparr>) 1500 = 100"
proof -
  have p: "ProductDocument.price example_product = 100"
    and n: "ProductDocument.discount example_product = None"
    by (simp_all add: example_product_def)
  have w: "\<not> in_window (example_discount k v) 2001" "\<not> in_window (example_discount k v) 999"
       "in_window (example_discount k v) 1500"
       "discount_type (example_discount k v) = Some k"
       "discount_value (example_discount k v) = v" for k v
    by (simp_all add: in_window_def example_discount_def)
  show ?thesis
    using p n w
      calculateDiscountedPrice_spec [of example_product 1500]
      calculateDiscountedPrice_spec
        [of "example_product\<lparr>ProductDocument.discount := Some (example_discount ''percentage'' 20)\<rparr>" 2001]
      calculateDiscountedPrice_spec
        [of "example_product\<lparr>ProductDocument.discount := Some (example_discount ''percentage'' 20)\<rparr>" 999]
      calculateDiscountedPrice_spec
        [of "example_product\<lparr>ProductDocument.discount := Some (example_discount ''percentage'' 20)\<rparr>" 1500]
      calculateDiscountedPrice_spec
        [of "example_product\<lparr>ProductDocument.discount := Some (example_discount ''fixed'' 150)\<rparr>" 1500]
      calculateDiscountedPrice_spec
        [of "example_product\<lparr>ProductDocument.discount := Some (example_discount ''bogus'' 150)\<rparr>" 1500]
    by simp
qed

text \<open>
  C10. For every product with a percentage discount in its window, the discounted price is
  price times (1 - value/100), with no lower bound at zero: whenever the price is positive
  and the value is strictly greater than 100 the result is strictly negative, and there
  is such a product.
\<close>

theorem percentage_discount_unclamped:
  "(\<forall>d. ProductDocument.discount doc = Some d \<and> in_window d now
        \<and> discount_type d = Some ''percentage'' \<longrightarrow>
      calculateDiscountedPrice doc now = ProductDocument.price doc * (1 - discount_value d / 100) \<and>
      (0 < ProductDocument.price doc \<and> 100 < discount_value d \<longrightarrow>
         calculateDiscountedPrice doc now < 0)) \<and>
   (\<exists>p t d. ProductDocument.discount p = Some d \<and> in_window d t
        \<and> discount_type d = Some ''percentage'' \<and> 0 < ProductDocument.price p
        \<and> 100 < discount_value d \<and> calculateDiscountedPrice p t < 0)"
proof (intro conjI allI impI)
  fix d
  assume a: "ProductDocument.discount doc = Some d \<and> in_window d now
        \<and> discount_type d = Some ''percentage''"
  then show eq: "calculateDiscountedPrice doc now
      = ProductDocument.price doc * (1 - discount_value d / 100)"
    by (auto simp: calculateDiscountedPrice_def in_window_def split: option.splits)
  assume "0 < ProductDocument.price doc \<and> 100 < discount_value d"
  then have "0 < ProductDocument.price doc" and "1 - discount_value d / 100 < 0"
    by simp_all
  then show "calculateDiscountedPrice doc now < 0"
    unfolding eq by (rule mult_pos_neg)
next
  let ?p = "example_product\<lparr>ProductDocument.discount := Some (example_discount ''percentage'' 150)\<rparr>"
  have "ProductDocument.discount ?p = Some (example_discount ''percentage'' 150)
      \<and> in_window (example_discount ''percentage'' 150) 1500
      \<and> discount_type (example_discount ''percentage'' 150) = Some ''percentage''
      \<and> 0 < ProductDocument.price ?p
      \<and> 100 < discount_value (example_discount ''percentage'' 150)
      \<and> calculateDiscountedPrice ?p 1500 < 0"
    by (simp add: example_product_def example_discount_def in_window_def
        calculateDiscountedPrice_def)
  then show "\<exists>p t d. ProductDocument.discount p = Some d \<and> in_window d t
        \<and> discount_type d = Some ''percentage'' \<and> 0 < ProductDocument.price p
        \<and> 100 < discount_value d \<and> calculateDiscountedPrice p t < 0"
    by blast
qed

text \<open>Price 100 with 150 percent: the discounted price is -50.\<close>

theorem percentage_discount_unclamped_witness:
  "calculateDiscountedPrice
     (example_product\<lparr>ProductDocument.discount := Some (example_discount ''percentage'' 150)\<rparr>) 1500
     = - 50 \<and>
   calculateDiscountedPrice
     (example_product\<lparr>ProductDocument.discount := Some (example_discount ''percentage'' 150)\<rparr>) 1500
     < 0"
proof -
  have p: "ProductDocument.price example_product = 100"
    by (simp add: example_product_def)
  have w: "in_window (example_discount ''percentage'' 150) 1500"
       "discount_type (example_discount ''percentage'' 150) = Some ''percentage''"
       "discount_value (example_discount ''percentage'' 150) = 150"
    by (simp_all add: in_window_def example_discount_def)
  show ?thesis
    using p w percentage_discount_unclamped
        [of "example_product\<lparr>ProductDocument.discount := Some (example_discount ''percentage'' 150)\<rparr>" 1500]
    by simp
qed

section \<open>Properties of the slug\<close>


lemma hyphen_not_alnum: "\<not> lower_alnum (CHR ''-'')"
  by (simp add: lower_alnum_def)

lemma replace_runs_alnum_prefix:
  "\<forall>x\<in>set as. lower_alnum x \<Longrightarrow> replace_runs (as @ bs) = as @ replace_runs bs"
  by (induction as) simp_all

lemma replace_runs_takeWhile:
  "replace_runs cs = takeWhile lower_alnum cs @ replace_runs (dropWhile lower_alnum cs)"
proof -
  have "replace_runs (takeWhile lower_alnum cs @ dropWhile lower_alnum cs)
      = takeWhile lower_alnum cs @ replace_runs (dropWhile lower_alnum cs)"
    by (rule replace_runs_alnum_prefix) (auto dest: set_takeWhileD)
  then show ?thesis by simp
qed

lemma run_image_Cons:
  "run_image (c # cs) = (if lower_alnum c then c # cs else ''-'')"
  by (simp add: run_image_def)

lemma replace_runs_maximal_runs:
  "replace_runs s = concat (map run_image (maximal_runs s))"
proof (induction s rule: maximal_runs.induct)
  case 1
  then show ?case by simp
next
  case (2 c cs)
  show ?case
  proof (cases "lower_alnum c")
    case True
    then have same: "(\<lambda>d. lower_alnum d = lower_alnum c) = lower_alnum"
      by auto
    have "replace_runs (c # cs) = c # replace_runs cs"
      using True by simp
    also have "\<dots> = c # takeWhile lower_alnum cs @ replace_runs (dropWhile lower_alnum cs)"
      using replace_runs_takeWhile [of cs] by simp
    also have "\<dots> = concat (map run_image (maximal_runs (c # cs)))"
      using "2.IH" True by (simp add: same run_image_Cons)
    finally show ?thesis .
  next
    case False
    then have same: "(\<lambda>d. lower_alnum d = lower_alnum c) = (\<lambda>d. \<not> lower_alnum d)"
      by auto
    show ?thesis
      using "2.IH" False by (simp add: same run_image_Cons)
  qed
qed


lemma dropWhile_hyphen:
  assumes "successively (\<lambda>a b. \<not> (a = CHR ''-'' \<and> b = CHR ''-'')) t"
  shows "dropWhile (\<lambda>c. c = CHR ''-'') t
           = (case t of [] \<Rightarrow> [] | c # cs \<Rightarrow> if c = CHR ''-'' then cs else t)"
proof (cases t)
  case Nil
  then show ?thesis by simp
next
  case (Cons c cs)
  show ?thesis
  proof (cases cs)
    case Nil
    with Cons show ?thesis by simp
  next
    case (Cons d ds)
    with \<open>t = c # cs\<close> assms show ?thesis by auto
  qed
qed

lemma successively_tl:
  "successively Q t \<Longrightarrow> successively Q (case t of [] \<Rightarrow> [] | c # cs \<Rightarrow> if c = x then cs else t)"
  by (cases t) (auto simp: successively_Cons)

lemma rev_dropWhile_hyphen:
  assumes "successively (\<lambda>a b. \<not> (a = CHR ''-'' \<and> b = CHR ''-'')) t"
  shows "rev (dropWhile (\<lambda>c. c = CHR ''-'') (rev t))
           = (if t \<noteq> [] \<and> last t = CHR ''-'' then butlast t else t)"
proof (cases "t = []")
  case True
  then show ?thesis by simp
next
  case False
  then have r: "rev t = last t # rev (butlast t)"
    by (metis append_butlast_last_id rev.simps(2) rev_append rev_rev_ident append_Nil rev.simps(1) append_Cons)
  have "successively (\<lambda>a b. \<not> (a = CHR ''-'' \<and> b = CHR ''-'')) (rev t)"
  proof -
    have sym: "(\<lambda>x y. \<not> (y = CHR ''-'' \<and> x = CHR ''-''))
             = (\<lambda>a b. \<not> (a = CHR ''-'' \<and> b = CHR ''-''))"
      by (intro ext) auto
    show ?thesis
      unfolding successively_rev sym by (rule assms)
  qed
  from dropWhile_hyphen [OF this] show ?thesis
    using False by (simp add: r)
qed

lemma strip_edge_eq_strip_all:
  assumes "successively (\<lambda>a b. \<not> (a = CHR ''-'' \<and> b = CHR ''-'')) t"
  shows "strip_edge_hyphens t = strip_all_hyphens t"
proof -
  let ?s1 = "case t of [] \<Rightarrow> [] | c # cs \<Rightarrow> if c = CHR ''-'' then cs else t"
  have 1: "dropWhile (\<lambda>c. c = CHR ''-'') t = ?s1"
    by (rule dropWhile_hyphen [OF assms])
  have "successively (\<lambda>a b. \<not> (a = CHR ''-'' \<and> b = CHR ''-'')) ?s1"
    by (rule successively_tl [OF assms])
  from rev_dropWhile_hyphen [OF this] show ?thesis
    by (simp add: strip_edge_hyphens_def strip_all_hyphens_def 1 Let_def)
qed

lemma replace_runs_hd:
  "replace_runs s \<noteq> [] \<Longrightarrow> s \<noteq> [] \<and> (lower_alnum (hd s) \<longrightarrow> hd (replace_runs s) = hd s)"
  by (cases s) auto

lemma replace_runs_no_adjacent_hyphens:
  "successively (\<lambda>a b. \<not> (a = CHR ''-'' \<and> b = CHR ''-'')) (replace_runs s)"
proof (induction s rule: replace_runs.induct)
  case 1
  then show ?case by simp
next
  case (2 c cs)
  show ?case
  proof (cases "lower_alnum c")
    case True
    then have "c \<noteq> CHR ''-''"
      using hyphen_not_alnum by auto
    with True "2.IH" show ?thesis
      by (simp add: successively_Cons)
  next
    case False
    let ?rest = "dropWhile (\<lambda>d. \<not> lower_alnum d) cs"
    have "replace_runs ?rest = [] \<or> hd (replace_runs ?rest) \<noteq> CHR ''-''"
    proof (cases "replace_runs ?rest = []")
      case True
      then show ?thesis by simp
    next
      case nonempty: False
      then have ne: "?rest \<noteq> []"
        using replace_runs_hd by blast
      then have "lower_alnum (hd ?rest)"
        using hd_dropWhile [of "\<lambda>d. \<not> lower_alnum d" cs] by simp
      then show ?thesis
        using replace_runs_hd [OF nonempty] hyphen_not_alnum by auto
    qed
    with False "2.IH" show ?thesis
      by (auto simp: successively_Cons)
  qed
qed

theorem slug_refines_spec: "slug_of_name nm = slug_spec nm"
  by (simp add: slug_of_name_def slug_spec_def replace_runs_maximal_runs [symmetric]
      strip_edge_eq_strip_all [OF replace_runs_no_adjacent_hyphens])


lemma concat_maximal_runs: "concat (maximal_runs s) = s"
  by (induction s rule: maximal_runs.induct) simp_all

lemma maximal_runs_uniform:
  "r \<in> set (maximal_runs s) \<Longrightarrow> r \<noteq> [] \<and> (\<forall>x\<in>set r. lower_alnum x = lower_alnum (hd r))"
proof (induction s rule: maximal_runs.induct)
  case 1
  then show ?case by simp
next
  case (2 c cs)
  let ?same = "\<lambda>d. lower_alnum d = lower_alnum c"
  from "2.prems" have "r = c # takeWhile ?same cs \<or> r \<in> set (maximal_runs (dropWhile ?same cs))"
    by simp
  then show ?case
  proof
    assume r: "r = c # takeWhile ?same cs"
    have tw: "lower_alnum x = lower_alnum c" if "x \<in> set (takeWhile ?same cs)" for x
      using that by (rule set_takeWhileD [THEN conjunct2])
    have "r \<noteq> []" and hd: "hd r = c" and set: "set r = insert c (set (takeWhile ?same cs))"
      by (simp_all add: r)
    show ?thesis
    proof (intro conjI ballI)
      show "r \<noteq> []" by fact
      fix x assume "x \<in> set r"
      then have "x = c \<or> x \<in> set (takeWhile ?same cs)"
        unfolding set by blast
      then show "lower_alnum x = lower_alnum (hd r)"
        unfolding hd using tw by blast
    qed
  next
    assume "r \<in> set (maximal_runs (dropWhile ?same cs))"
    then show ?thesis
      by (rule "2.IH")
  qed
qed

lemma maximal_runs_hd:
  "maximal_runs s \<noteq> [] \<Longrightarrow> s \<noteq> [] \<and> hd (hd (maximal_runs s)) = hd s"
  by (cases s) auto

lemma maximal_runs_alternate:
  "successively (\<lambda>r1 r2. lower_alnum (hd r1) \<noteq> lower_alnum (hd r2)) (maximal_runs s)"
proof (induction s rule: maximal_runs.induct)
  case 1
  then show ?case by simp
next
  case (2 c cs)
  let ?rest = "dropWhile (\<lambda>d. lower_alnum d = lower_alnum c) cs"
  have "maximal_runs ?rest = [] \<or> lower_alnum (hd (hd (maximal_runs ?rest))) \<noteq> lower_alnum c"
  proof (cases "maximal_runs ?rest = []")
    case True
    then show ?thesis by simp
  next
    case False
    then have "?rest \<noteq> []" and hd: "hd (hd (maximal_runs ?rest)) = hd ?rest"
      using maximal_runs_hd by blast+
    then have "lower_alnum (hd ?rest) \<noteq> lower_alnum c"
      using hd_dropWhile [of "\<lambda>d. lower_alnum d = lower_alnum c" cs] by simp
    then show ?thesis
      by (simp add: hd)
  qed
  with "2.IH" show ?case
    by (auto simp: successively_Cons)
qed

lemma slug_example: "slug_of_name ''Men's Running Shoes!!'' = ''men-s-running-shoes''"
  by code_simp

text \<open>
  C9. The slug that the hooks derive from a name is the name lowercased, with every maximal
  run of characters outside \<open>[a-z0-9]\<close> replaced by a single hyphen and the leading and
  trailing hyphens stripped (\<open>slug_spec\<close>). The hook of a category and the hook of a product
  store that slug when the name was set or changed and no slug exists yet (none, or the
  empty string). The name ``Men's Running Shoes!!'' gives the slug ``men-s-running-shoes''.
\<close>

theorem slug_derivation:
  "slug_of_name nm = slug_spec nm \<and>
   (CategoryDocument.isModified_name c
      \<and> (CategoryDocument.slug c = None \<or> CategoryDocument.slug c = Some []) \<longrightarrow>
    CategoryDocument.slug (Category_pre_save c) = Some (slug_spec (CategoryDocument.name c))) \<and>
   (ProductDocument.isModified_name p
      \<and> (seoData p = None
          \<or> (\<exists>sd. seoData p = Some sd \<and> (SeoData.slug sd = None \<or> SeoData.slug sd = Some []))) \<longrightarrow>
    (\<exists>sd. seoData (Product_pre_save p) = Some sd
         \<and> SeoData.slug sd = Some (slug_spec (ProductDocument.name p)))) \<and>
   slug_of_name ''Men's Running Shoes!!'' = ''men-s-running-shoes''"
proof -
  have cat: "CategoryDocument.isModified_name c
      \<and> (CategoryDocument.slug c = None \<or> CategoryDocument.slug c = Some []) \<longrightarrow>
    CategoryDocument.slug (Category_pre_save c) = Some (slug_of_name (CategoryDocument.name c))"
    by (auto simp: Category_pre_save_def falsy_string_def)
  have prod: "ProductDocument.isModified_name p
      \<and> (seoData p = None
          \<or> (\<exists>sd. seoData p = Some sd \<and> (SeoData.slug sd = None \<or> SeoData.slug sd = Some []))) \<longrightarrow>
    (\<exists>sd. seoData (Product_pre_save p) = Some sd
         \<and> SeoData.slug sd = Some (slug_of_name (ProductDocument.name p)))"
    by (auto simp: Product_pre_save_def falsy_string_def Let_def)
  show ?thesis
    using cat prod by (simp only: slug_refines_spec slug_example [unfolded slug_refines_spec] simp_thms)
qed

text \<open>A category and a product of that name, without a slug, as their hooks leave them.\<close>

theorem slug_derivation_witness:
  "CategoryDocument.slug (Category_pre_save example_category) = Some ''men-s-running-shoes'' \<and>
   (\<exists>sd. seoData (Product_pre_save example_product) = Some sd
        \<and> SeoData.slug sd = Some ''men-s-running-shoes'')"
proof -
  have c: "CategoryDocument.isModified_name example_category"
      "CategoryDocument.slug example_category = None"
      "CategoryDocument.name example_category = ''Men's Running Shoes!!''"
    by (simp_all add: example_category_def)
  have p: "ProductDocument.isModified_name example_product" "seoData example_product = None"
      "ProductDocument.name example_product = ''Men's Running Shoes!!''"
    by (simp_all add: example_product_def)
  note t = slug_derivation [of "''Men's Running Shoes!!''" example_category example_product]
  note t1 = t [THEN conjunct1]
  note t2 = t [THEN conjunct2, THEN conjunct1]
  note t3 = t [THEN conjunct2, THEN conjunct2, THEN conjunct1]
  note t4 = t [THEN conjunct2, THEN conjunct2, THEN conjunct2]
  have spec: "slug_spec ''Men's Running Shoes!!'' = ''men-s-running-shoes''"
    by (rule trans [OF t1 [symmetric] t4])
  have cat: "CategoryDocument.slug (Category_pre_save example_category)
               = Some (slug_spec ''Men's Running Shoes!!'')"
    using t2 c by simp
  have prod: "\<exists>sd. seoData (Product_pre_save example_product) = Some sd
                \<and> SeoData.slug sd = Some (slug_spec ''Men's Running Shoes!!'')"
    using t3 p by simp
  show ?thesis
    using cat prod by (simp add: spec)
qed

section \<open>Properties of the reviews\<close>

lemma foldl_plus_sum_list:
  "foldl (\<lambda>s x. s + f x) a xs = (a::real) + sum_list (map f xs)"
  by (induction xs arbitrary: a) simp_all

lemma two_reviews_db_eq:
  "two_reviews_db =
     \<lparr>users = [''64b000000000000000000001'', ''64b000000000000000000002''], orders = [],
      reviews =
        [(example_review ''64b0000000000000000000c1'' ''64b000000000000000000001'' 4)
           \<lparr>ReviewDocument.isNew := False\<rparr>,
         (example_review ''64b0000000000000000000c2'' ''64b000000000000000000002'' 2)
           \<lparr>ReviewDocument.isNew := False\<rparr>],
      products = [example_product\<lparr>ProductDocument.isModified_name := False,
                    ratings := \<lparr>average = 3, count = 2\<rparr>\<rparr>],
      interactions = []\<rparr>"
  by (simp add: two_reviews_db_def Review_save_def Review_post_save_def update_product_ratings_def
      findById_def write_product_def write_review_def isVerifiedPurchase_def example_db_def
      example_review_def example_product_def Product_save_def Product_pre_save_def Let_def)


lemma Product_save_fields:
  "ratings (Product_save doc) = ratings doc" "product_id (Product_save doc) = product_id doc"
  by (simp_all add: Product_save_def Product_pre_save_def Let_def)

lemma find_write_product:
  "product_id q = pid \<Longrightarrow>
   find (\<lambda>p. product_id p = pid) (write_product q coll)
     = (case find (\<lambda>p. product_id p = pid) coll of None \<Rightarrow> None | Some p \<Rightarrow> Some q)"
  by (induction coll) (auto simp: write_product_def)

lemma reviews_update_product_ratings:
  "reviews (update_product_ratings db pid) = reviews db"
  by (simp add: update_product_ratings_def Let_def split: option.split)

lemma update_product_ratings_aggregate:
  assumes "find (\<lambda>p. product_id p = pid) (products (update_product_ratings db pid)) = Some q"
  shows "ratings q = rating_aggregate (reviews db) pid"
proof (cases "find (\<lambda>p. product_id p = pid) (products db)")
  case None
  then have "update_product_ratings db pid = db"
    by (simp add: update_product_ratings_def findById_def)
  with assms None show ?thesis by simp
next
  case (Some p0)
  let ?found = "filter (\<lambda>r. ReviewDocument.product r = pid \<and> isApproved r) (reviews db)"
  let ?avg = "if length ?found > 0
              then foldl (\<lambda>sum review. sum + rating review) 0 ?found / real (length ?found) else 0"
  let ?p1 = "(p0\<lparr>ProductDocument.isModified_name := False\<rparr>)
               \<lparr>ratings := \<lparr>average = real_of_int (round (?avg * 10)) / 10,
                             count = real (length ?found)\<rparr>\<rparr>"
  have id0: "product_id p0 = pid"
    using Some by (auto dest: find_Some_iff [THEN iffD1])
  have upd: "products (update_product_ratings db pid) = write_product (Product_save ?p1) (products db)"
    using Some by (simp add: update_product_ratings_def findById_def Let_def)
  have "product_id (Product_save ?p1) = pid"
    using id0 by (simp add: Product_save_fields)
  from find_write_product [OF this, of "products db"] Some assms upd
  have q: "q = Product_save ?p1"
    by simp
  have "ratings q = \<lparr>average = real_of_int (round (?avg * 10)) / 10, count = real (length ?found)\<rparr>"
    by (simp add: q Product_save_fields)
  also have "\<dots> = rating_aggregate (reviews db) pid"
    by (simp add: rating_aggregate_def Let_def foldl_plus_sum_list)
  finally show ?thesis .
qed

text \<open>
  What the two hooks of the review schema establish: after \<^verbatim>\<open>review.save()\<close> and after
  \<^verbatim>\<open>review.deleteOne()\<close>, the product of the review, when it is in the collection, carries
  the aggregate of the reviews as the operation leaves them.
\<close>

lemma Review_save_recomputes:
  assumes "find (\<lambda>p. product_id p = ReviewDocument.product doc)
             (products (fst (Review_save db doc))) = Some q"
  shows "ratings q = rating_aggregate (reviews (fst (Review_save db doc))) (ReviewDocument.product doc)"
proof -
  let ?d1 = "if ReviewDocument.isNew doc then doc\<lparr>verified := isVerifiedPurchase db doc\<rparr> else doc"
  let ?db1 = "db\<lparr>reviews := write_review ?d1 (reviews db)\<rparr>"
  have pd: "ReviewDocument.product ?d1 = ReviewDocument.product doc"
    by simp
  have fst: "fst (Review_save db doc) = update_product_ratings ?db1 (ReviewDocument.product doc)"
    by (simp add: Review_save_def Review_post_save_def Let_def)
  from assms have "ratings q = rating_aggregate (reviews ?db1) (ReviewDocument.product doc)"
    unfolding fst by (rule update_product_ratings_aggregate)
  then show ?thesis
    unfolding fst by (simp only: reviews_update_product_ratings)
qed

lemma Review_deleteOne_recomputes:
  assumes "find (\<lambda>p. product_id p = ReviewDocument.product doc)
             (products (Review_deleteOne db doc)) = Some q"
  shows "ratings q = rating_aggregate (reviews (Review_deleteOne db doc)) (ReviewDocument.product doc)
       \<and> reviews (Review_deleteOne db doc) = filter (\<lambda>r. review_id r \<noteq> review_id doc) (reviews db)"
proof -
  let ?db1 = "db\<lparr>reviews := filter (\<lambda>r. review_id r \<noteq> review_id doc) (reviews db)\<rparr>"
  have eq: "Review_deleteOne db doc = update_product_ratings ?db1 (ReviewDocument.product doc)"
    by (simp add: Review_deleteOne_def Review_post_deleteOne_def)
  from assms have "ratings q = rating_aggregate (reviews ?db1) (ReviewDocument.product doc)"
    unfolding eq by (rule update_product_ratings_aggregate)
  then show ?thesis
    unfolding eq by (simp add: reviews_update_product_ratings)
qed

text \<open>
  The deletion of a user touches no product: whatever reviews it removes, every rating
  aggregate stays as it was.
\<close>

lemma User_deleteOne_products:
  "products (User_deleteOne db uid) = products db"
  by (simp add: User_deleteOne_def Let_def)

text \<open>Rounding to one decimal place moves the mean by at most 0.05.\<close>

lemma one_decimal_place:
  "\<bar>real_of_int (round (x * 10)) / 10 - x\<bar> \<le> 1 / 20"
proof -
  have "\<bar>real_of_int (round (x * 10)) - x * 10\<bar> \<le> 1 / 2"
    by (rule of_int_round_abs_le)
  then show ?thesis by (simp add: field_simps abs_if split: if_splits)
qed

text \<open>
  C2. After every successful review creation, update or deletion, the rating aggregate of
  the owning product should equal the recomputation over the product's approved reviews.
  The two hooks of the review schema do that (\<open>Review_save_recomputes\<close> and
  \<open>Review_deleteOne_recomputes\<close> above). The deletion of a
  user does not: in \<open>two_reviews_db\<close> the product has the ratings 4 and 2 and the aggregate
  (3, 2); deleting the author of the rating 4 removes that review and leaves the aggregate
  at (3, 2), where the recomputation over the remaining review gives (2, 1), which is what
  deleting the same review through its document gives.
\<close>

theorem user_cascade_stale_ratings:
  "map ratings (products two_reviews_db) = [\<lparr>average = 3, count = 2\<rparr>] \<and>
   map rating (reviews (User_deleteOne two_reviews_db ''64b000000000000000000001'')) = [2] \<and>
   map ratings (products (User_deleteOne two_reviews_db ''64b000000000000000000001''))
     = [\<lparr>average = 3, count = 2\<rparr>] \<and>
   rating_aggregate (reviews (User_deleteOne two_reviews_db ''64b000000000000000000001''))
       ''64b0000000000000000000a1''
     = \<lparr>average = 2, count = 1\<rparr> \<and>
   map ratings (products (Review_deleteOne two_reviews_db
       (example_review ''64b0000000000000000000c1'' ''64b000000000000000000001'' 4)))
     = [\<lparr>average = 2, count = 1\<rparr>]"
  by (simp add: two_reviews_db_eq User_deleteOne_def Review_deleteOne_def Review_post_deleteOne_def
      update_product_ratings_def findById_def write_product_def example_review_def
      example_product_def Product_save_def Product_pre_save_def rating_aggregate_def Let_def)

lemma Review_save_doc:
  "snd (Review_save db doc) =
     (if ReviewDocument.isNew doc then doc\<lparr>verified := isVerifiedPurchase db doc\<rparr> else doc)
       \<lparr>ReviewDocument.isNew := False\<rparr>"
  by (simp add: Review_save_def Let_def)

text \<open>
  C7. For every review and every user, \<^verbatim>\<open>markAsHelpful\<close> is idempotent: for a user who
  is among the voters it changes nothing; otherwise it adds the user to the voters and
  raises the count by exactly one; a second call by the same user changes nothing, so two
  calls raise the count by one for a user who had not voted, and not at all otherwise.
\<close>

theorem markAsHelpful_idempotent:
  "(u \<in> set (helpfulBy doc) \<longrightarrow> markAsHelpful db doc u = (db, doc)) \<and>
   (u \<notin> set (helpfulBy doc) \<longrightarrow>
      helpfulBy (snd (markAsHelpful db doc u)) = helpfulBy doc @ [u] \<and>
      helpful (snd (markAsHelpful db doc u)) = helpful doc + 1) \<and>
   markAsHelpful (fst (markAsHelpful db doc u)) (snd (markAsHelpful db doc u)) u
     = markAsHelpful db doc u \<and>
   helpful (snd (markAsHelpful (fst (markAsHelpful db doc u)) (snd (markAsHelpful db doc u)) u))
     = helpful doc + (if u \<in> set (helpfulBy doc) then 0 else 1)"
proof -
  have voted: "u \<in> set (helpfulBy (snd (markAsHelpful db doc u)))"
    by (simp add: markAsHelpful_def Review_save_doc)
  have again: "markAsHelpful (fst (markAsHelpful db doc u)) (snd (markAsHelpful db doc u)) u
     = markAsHelpful db doc u"
    using voted by (simp add: markAsHelpful_def [of _ "snd (markAsHelpful db doc u)"])
  show ?thesis
    unfolding again by (simp add: markAsHelpful_def Review_save_doc)
qed

text \<open>
  A review without votes: one call and two calls by the same user both leave the count at
  1; a call by a user who is among the voters changes nothing.
\<close>

theorem markAsHelpful_witness:
  "helpful (example_review ''64b0000000000000000000c1'' ''64b000000000000000000001'' 4) = 0 \<and>
   helpfulBy (snd (markAsHelpful example_db
       (example_review ''64b0000000000000000000c1'' ''64b000000000000000000001'' 4)
       ''64b000000000000000000002'')) = [''64b000000000000000000002''] \<and>
   helpful (snd (markAsHelpful example_db
       (example_review ''64b0000000000000000000c1'' ''64b000000000000000000001'' 4)
       ''64b000000000000000000002'')) = 1 \<and>
   helpful (snd (markAsHelpful
       (fst (markAsHelpful example_db
          (example_review ''64b0000000000000000000c1'' ''64b000000000000000000001'' 4)
          ''64b000000000000000000002''))
       (snd (markAsHelpful example_db
          (example_review ''64b0000000000000000000c1'' ''64b000000000000000000001'' 4)
          ''64b000000000000000000002''))
       ''64b000000000000000000002'')) = 1 \<and>
   markAsHelpful example_db
       ((example_review ''64b0000000000000000000c1'' ''64b000000000000000000001'' 4)
          \<lparr>helpful := 1, helpfulBy := [''64b000000000000000000002'']\<rparr>)
       ''64b000000000000000000002''
     = (example_db,
        (example_review ''64b0000000000000000000c1'' ''64b000000000000000000001'' 4)
          \<lparr>helpful := 1, helpfulBy := [''64b000000000000000000002'']\<rparr>)"
proof -
  let ?r = "example_review ''64b0000000000000000000c1'' ''64b000000000000000000001'' 4"
  let ?voted = "?r\<lparr>helpful := 1, helpfulBy := [''64b000000000000000000002'']\<rparr>"
  have h: "helpful ?r = 0" "helpfulBy ?r = []"
    by (simp_all add: example_review_def)
  have v: "''64b000000000000000000002'' \<in> set (helpfulBy ?voted)"
    by simp
  show ?thesis
    using h v markAsHelpful_idempotent [of "''64b000000000000000000002''" ?r example_db]
      markAsHelpful_idempotent [of "''64b000000000000000000002''" ?voted example_db]
    by simp
qed

end
